theory Spec2Isabelle
  imports Complex_Main
begin

section \<open>The global path node: data\<close>

text \<open>
  The node \<^verbatim>\<open>nature_global_path_node.cpp\<close> keeps its inputs in global variables that
  the subscription callbacks overwrite, and the rest of its state in locals of
  \<^verbatim>\<open>main\<close>. Both are collected in one record that the loop body passes along.

  The source computes with two number types, \<^verbatim>\<open>float\<close> and \<^verbatim>\<open>double\<close>. They are the
  type parameters \<open>'f\<close> and \<open>'d\<close> of the model, and the operations the source applies
  to them are the fields of a record that every function of the model takes as its
  argument \<open>A\<close>: the conversion from \<^verbatim>\<open>double\<close> to \<^verbatim>\<open>float\<close> (a \<^verbatim>\<open>static_cast\<close> or
  a store into a \<^verbatim>\<open>float\<close>), the widening from \<^verbatim>\<open>float\<close> to \<^verbatim>\<open>double\<close>, the \<^verbatim>\<open>double\<close>
  subtraction, the \<^verbatim>\<open>float\<close> product and sum, the square root of a \<^verbatim>\<open>float\<close> as a
  \<^verbatim>\<open>double\<close>, the comparison of two \<^verbatim>\<open>double\<close>s, and the zeros the variables start
  with. What is proved for every \<open>A\<close> holds for the arithmetic of the machine,
  whatever it rounds to and whatever it does with infinities and NaN.
\<close>

record ('f, 'd) arith =
  zero_f :: 'f
  zero_d :: 'd
  to_float :: "'d \<Rightarrow> 'f"
  to_double :: "'f \<Rightarrow> 'd"
  sub_d :: "'d \<Rightarrow> 'd \<Rightarrow> 'd"
  mul_f :: "'f \<Rightarrow> 'f \<Rightarrow> 'f"
  add_f :: "'f \<Rightarrow> 'f \<Rightarrow> 'f"
  sqrt_f :: "'f \<Rightarrow> 'd"
  less_d :: "'d \<Rightarrow> 'd \<Rightarrow> bool"

text \<open>
  Of a pose only \<^verbatim>\<open>position.x\<close> and \<^verbatim>\<open>position.y\<close> are ever read or set to anything
  but a constant, so a pose is the pair of the two and a path message the list of
  these pairs. The fields of a pose are \<^verbatim>\<open>double\<close>; the goal and the points of the
  planner are vectors of \<^verbatim>\<open>float\<close>.
\<close>

type_synonym 'a point = "'a \<times> 'a"
type_synonym 'a Path = "'a point list"
type_synonym OccupancyGrid = "int list"

text \<open>
  \<^verbatim>\<open>PlanPath\<close> of the A* planner is declared outside this file: it is a parameter of
  the model, a function of the two grids, the goal and the position.
\<close>

type_synonym 'f planner = "OccupancyGrid \<Rightarrow> OccupancyGrid \<Rightarrow> 'f point \<Rightarrow> 'f point \<Rightarrow> 'f Path"

text \<open>
  \<^verbatim>\<open>operator[]\<close> of \<^verbatim>\<open>std::vector\<close> outside the vector is undefined behaviour. The
  model stops with this error at such a read.
\<close>

datatype error = OutOfRange

datatype flow = Continue | Break

text \<open>The parameters \<^verbatim>\<open>main\<close> reads with \<^verbatim>\<open>get_parameter\<close>.\<close>

record ('f, 'd) params =
  goal_dist :: 'f
  waypoints_x_list :: "'d list"
  waypoints_y_list :: "'d list"
  shutdown_behavior_param :: int

text \<open>
  The globals (\<open>odom\<close> to \<open>waypoints_rcvd\<close>), the locals of \<^verbatim>\<open>main\<close> (\<open>state_data\<close> for
  \<^verbatim>\<open>state.data\<close>, to \<open>waypoints_change_once\<close>), and for each publisher the list of the
  messages it has sent, oldest first.
\<close>

record ('f, 'd) node =
  odom :: "'d point"
  odom_rcvd :: bool
  current_grid :: OccupancyGrid
  segmentation_grid :: OccupancyGrid
  current_waypoints :: "'d Path"
  waypoints_rcvd :: bool
  state_data :: int
  goal :: "'f point"
  shutdown_condition :: bool
  nl :: int
  current_waypoint :: int
  shutdown_count :: int
  waypoints_change_once :: bool
  state_pub :: "int list"
  path_pub :: "'d Path list"
  waypoint_pub :: "'d Path list"
  current_waypoint_pub :: "int list"
  dist_to_current_waypoint_pub :: "'d list"

section \<open>Callbacks\<close>

definition OdometryCallback :: "'d point \<Rightarrow> ('f, 'd) node \<Rightarrow> ('f, 'd) node" where
  "OdometryCallback rcv_odom s = s\<lparr>odom := rcv_odom, odom_rcvd := True\<rparr>"

definition MapCallback :: "OccupancyGrid \<Rightarrow> ('f, 'd) node \<Rightarrow> ('f, 'd) node" where
  "MapCallback rcv_grid s = s\<lparr>current_grid := rcv_grid\<rparr>"

definition SegmentationMapCallback :: "OccupancyGrid \<Rightarrow> ('f, 'd) node \<Rightarrow> ('f, 'd) node" where
  "SegmentationMapCallback rcv_grid s = s\<lparr>segmentation_grid := rcv_grid\<rparr>"

definition WaypointCallback :: "'d Path \<Rightarrow> ('f, 'd) node \<Rightarrow> ('f, 'd) node" where
  "WaypointCallback rcv_waypoints s =
     s\<lparr>current_waypoints := rcv_waypoints, waypoints_rcvd := True\<rparr>"

text \<open>
  The messages of the four subscriptions. \<^verbatim>\<open>spin_some\<close> runs the callbacks of the
  messages that arrived since the last call, in their order of arrival.
\<close>

datatype 'd msg =
    OdometryMsg "'d point"
  | OccupancyGridMsg OccupancyGrid
  | SegmentationGridMsg OccupancyGrid
  | NewWaypointsMsg "'d Path"

fun dispatch :: "'d msg \<Rightarrow> ('f, 'd) node \<Rightarrow> ('f, 'd) node" where
  "dispatch (OdometryMsg p) s = OdometryCallback p s"
| "dispatch (OccupancyGridMsg g) s = MapCallback g s"
| "dispatch (SegmentationGridMsg g) s = SegmentationMapCallback g s"
| "dispatch (NewWaypointsMsg w) s = WaypointCallback w s"

fun spin_some :: "'d msg list \<Rightarrow> ('f, 'd) node \<Rightarrow> ('f, 'd) node" where
  "spin_some [] s = s"
| "spin_some (m # ms) s = spin_some ms (dispatch m s)"

fun is_new_waypoints :: "'d msg \<Rightarrow> bool" where
  "is_new_waypoints (NewWaypointsMsg w) = True"
| "is_new_waypoints m = False"

definition brings_waypoints :: "'d msg list \<Rightarrow> bool" where
  "brings_waypoints ms = list_ex is_new_waypoints ms"

section \<open>Conversions of positions\<close>

text \<open>
  A position read from \<^verbatim>\<open>double\<close> fields into a vector of \<^verbatim>\<open>float\<close>, as the goal at
  lines 123 to 124, 145 to 146 and 231 to 232 and the position at lines 156 to 157.
\<close>

definition to_float_point :: "('f, 'd) arith \<Rightarrow> 'd point \<Rightarrow> 'f point" where
  "to_float_point A p = (to_float A (fst p), to_float A (snd p))"

text \<open>A pose whose position is set from two \<^verbatim>\<open>float\<close> values, as at lines 167 to 168.\<close>

definition pose_of_floats :: "('f, 'd) arith \<Rightarrow> 'f point \<Rightarrow> 'd point" where
  "pose_of_floats A q = (to_double A (fst q), to_double A (snd q))"

text \<open>
  A pose whose position is set to the \<^verbatim>\<open>static_cast<float>\<close> of two \<^verbatim>\<open>double\<close> values,
  as at lines 113 to 114 and 183 to 184.
\<close>

definition pose_of_cast :: "('f, 'd) arith \<Rightarrow> 'd point \<Rightarrow> 'd point" where
  "pose_of_cast A p = pose_of_floats A (to_float_point A p)"

section \<open>Start of \<^verbatim>\<open>main\<close>\<close>

text \<open>The clamp of line 90: a selector outside 1..3 becomes 1.\<close>

definition shutdown_behavior :: "('f, 'd) params \<Rightarrow> int" where
  "shutdown_behavior cfg =
     (let sb = shutdown_behavior_param cfg in if sb > 3 \<or> sb < 1 then 1 else sb)"

definition num_waypoints :: "('f, 'd) params \<Rightarrow> nat" where
  "num_waypoints cfg = min (length (waypoints_x_list cfg)) (length (waypoints_y_list cfg))"

text \<open>The state before the parameters are looked at: nothing received, state -1.\<close>

definition startup :: "('f, 'd) arith \<Rightarrow> ('f, 'd) node" where
  "startup A =
     \<lparr>odom = (zero_d A, zero_d A), odom_rcvd = False, current_grid = [],
      segmentation_grid = [], current_waypoints = [], waypoints_rcvd = False,
      state_data = - 1, goal = (zero_f A, zero_f A), shutdown_condition = False, nl = 0,
      current_waypoint = 0, shutdown_count = 0, waypoints_change_once = True,
      state_pub = [], path_pub = [], waypoint_pub = [], current_waypoint_pub = [],
      dist_to_current_waypoint_pub = []\<rparr>"

text \<open>
  Lines 92 to 127. A mismatch of the two coordinate lists only prints a warning; the
  waypoints are the first \<open>num_waypoints\<close> pairs, each coordinate cast to \<^verbatim>\<open>float\<close>, and
  when there is at least one the goal is the first pair, stored as \<^verbatim>\<open>float\<close>, and the
  state goes to 0, which is published.
\<close>

definition main_init :: "('f, 'd) arith \<Rightarrow> ('f, 'd) params \<Rightarrow> ('f, 'd) node" where
  "main_init A cfg =
     (if num_waypoints cfg > 0 then
        (startup A)
          \<lparr>current_waypoints :=
             map (\<lambda>i. pose_of_cast A (waypoints_x_list cfg ! i, waypoints_y_list cfg ! i))
               [0 ..< num_waypoints cfg],
           goal := to_float_point A (waypoints_x_list cfg ! 0, waypoints_y_list cfg ! 0),
           state_data := 0,
           state_pub := [0]\<rparr>
      else startup A)"

section \<open>The loop body\<close>

text \<open>\<^verbatim>\<open>poses[i]\<close> with an \<^verbatim>\<open>int\<close> index.\<close>

definition pose_at :: "'d Path \<Rightarrow> int \<Rightarrow> error + 'd point" where
  "pose_at poses i =
     (if 0 \<le> i \<and> i < int (length poses) then Inr (poses ! nat i) else Inl OutOfRange)"

text \<open>
  \<^verbatim>\<open>poses.size() - 1\<close> is unsigned: for an empty vector it wraps to the largest
  \<^verbatim>\<open>size_t\<close>, and the \<^verbatim>\<open>int\<close> on the other side of the comparison is converted to
  \<^verbatim>\<open>size_t\<close>, so that of the negative values only -1 equals it, and every value but -1
  is below it. For a non-empty vector a negative \<^verbatim>\<open>int\<close> converts to a value above
  every size.
\<close>

definition eq_size_minus_1 :: "int \<Rightarrow> nat \<Rightarrow> bool" where
  "eq_size_minus_1 i n = (i = int n - 1)"

definition lt_size_minus_1 :: "int \<Rightarrow> nat \<Rightarrow> bool" where
  "lt_size_minus_1 i n = (if n = 0 then i \<noteq> - 1 else 0 \<le> i \<and> i < int n - 1)"

text \<open>Lines 141 to 152: a received waypoint list is processed, once.\<close>

definition process_new_waypoints :: "('f, 'd) arith \<Rightarrow> ('f, 'd) node \<Rightarrow> error + ('f, 'd) node" where
  "process_new_waypoints A s =
     (if waypoints_rcvd s \<and> waypoints_change_once s then
        (case pose_at (current_waypoints s) 0 of
           Inl e \<Rightarrow> Inl e
         | Inr p \<Rightarrow>
             Inr (s\<lparr>current_waypoint := 0, goal := to_float_point A p,
                    waypoints_change_once := False,
                    state_data := 0, state_pub := state_pub s @ [0]\<rparr>))
      else Inr s)"

text \<open>The \<^verbatim>\<open>while\<close> loop of lines 181 to 192.\<close>

function append_waypoints ::
  "('f, 'd) arith \<Rightarrow> 'd Path \<Rightarrow> int \<Rightarrow> 'd Path \<Rightarrow> error + 'd Path" where
  "append_waypoints A poses cp ros_path =
     (if lt_size_minus_1 cp (length poses) then
        (case pose_at poses (cp + 1) of
           Inl e \<Rightarrow> Inl e
         | Inr p \<Rightarrow> append_waypoints A poses (cp + 1) (ros_path @ [pose_of_cast A p]))
      else Inr ros_path)"
  by pat_completeness auto
termination
  by (relation "measure (\<lambda>(A, poses, cp, ros_path). nat (int (length poses) - cp))")
    (auto simp: pose_at_def split: if_splits)

declare append_waypoints.simps [simp del]

text \<open>Lines 161 to 193: the planner's points, and after more than one of them the
  waypoints behind the current one.\<close>

definition compose_path ::
  "('f, 'd) arith \<Rightarrow> 'f Path \<Rightarrow> 'd Path \<Rightarrow> int \<Rightarrow> error + 'd Path" where
  "compose_path A path poses cw =
     (let ros_path = map (pose_of_floats A) path
      in if length ros_path > 1 then append_waypoints A poses cw ros_path else Inr ros_path)"

text \<open>
  Lines 207 to 209: the differences are \<^verbatim>\<open>double\<close> differences stored in \<^verbatim>\<open>float\<close>
  variables, the squares and their sum are \<^verbatim>\<open>float\<close>, and the root is a \<^verbatim>\<open>double\<close>.
\<close>

definition distance :: "('f, 'd) arith \<Rightarrow> 'f point \<Rightarrow> 'd point \<Rightarrow> 'd" where
  "distance A g p =
     (let dx = to_float A (sub_d A (to_double A (fst g)) (fst p));
          dy = to_float A (sub_d A (to_double A (snd g)) (snd p))
      in sqrt_f A (add_f A (mul_f A dx dx) (mul_f A dy dy)))"

text \<open>Lines 206 to 236: the progression along the waypoints and the state. The test
  \<^verbatim>\<open>d<goal_dist\<close> compares the \<^verbatim>\<open>double\<close> with the widened \<^verbatim>\<open>float\<close>.\<close>

definition check_progression ::
  "('f, 'd) arith \<Rightarrow> ('f, 'd) params \<Rightarrow> ('f, 'd) node \<Rightarrow> error + (flow \<times> ('f, 'd) node)" where
  "check_progression A cfg s0 =
     (let d = distance A (goal s0) (odom s0);
          s = s0\<lparr>current_waypoint_pub := current_waypoint_pub s0 @ [current_waypoint s0],
                 dist_to_current_waypoint_pub := dist_to_current_waypoint_pub s0 @ [d]\<rparr>
      in if eq_size_minus_1 (current_waypoint s) (length (current_waypoints s)) then
           (if less_d A d (to_double A (goal_dist cfg)) \<or> shutdown_condition s then
              (let s1 = s\<lparr>shutdown_condition := True,
                          state_data := shutdown_behavior cfg,
                          state_pub := state_pub s @ [shutdown_behavior cfg],
                          shutdown_count := shutdown_count s + 1\<rparr>
               in if shutdown_count s1 > 10 then Inr (Break, s1) else Inr (Continue, s1))
            else Inr (Continue, s))
         else
           (if less_d A d (to_double A (goal_dist cfg)) then
              (case pose_at (current_waypoints s) (current_waypoint s + 1) of
                 Inl e \<Rightarrow> Inl e
               | Inr p \<Rightarrow>
                   Inr (Continue,
                        s\<lparr>current_waypoint := current_waypoint s + 1,
                          goal := to_float_point A p,
                          state_data := 0, state_pub := state_pub s @ [0]\<rparr>))
            else Inr (Continue, s\<lparr>state_data := 0, state_pub := state_pub s @ [0]\<rparr>)))"

text \<open>Lines 140 to 237: one pass through the body of the loop, up to \<^verbatim>\<open>spin_some\<close>.\<close>

definition loop_body ::
  "'f planner \<Rightarrow> ('f, 'd) arith \<Rightarrow> ('f, 'd) params \<Rightarrow> ('f, 'd) node \<Rightarrow>
     error + (flow \<times> ('f, 'd) node)" where
  "loop_body PlanPath A cfg s0 =
     (let s1 = s0\<lparr>state_pub := state_pub s0 @ [state_data s0]\<rparr>
      in case process_new_waypoints A s1 of
           Inl e \<Rightarrow> Inl e
         | Inr s2 \<Rightarrow>
             if odom_rcvd s2 \<and> state_data s2 \<noteq> - 1 then
               (case compose_path A
                       (PlanPath (current_grid s2) (segmentation_grid s2) (goal s2)
                          (to_float_point A (odom s2)))
                       (current_waypoints s2) (current_waypoint s2) of
                  Inl e \<Rightarrow> Inl e
                | Inr ros_path \<Rightarrow>
                    check_progression A cfg
                      (s2\<lparr>path_pub := path_pub s2 @ [ros_path],
                          waypoint_pub := waypoint_pub s2 @ [current_waypoints s2]\<rparr>))
             else Inr (Continue, s2))"

text \<open>
  The loop. Each element of the list is one iteration in which \<^verbatim>\<open>ok()\<close> held: the
  messages its \<^verbatim>\<open>spin_some\<close> delivers. The result \<open>Break\<close> is the loop left by its own
  \<^verbatim>\<open>break\<close>, after which \<^verbatim>\<open>main\<close> returns 0; \<open>Continue\<close> is the state at the head of
  the loop after the last of the listed iterations.
\<close>

fun run ::
  "'f planner \<Rightarrow> ('f, 'd) arith \<Rightarrow> ('f, 'd) params \<Rightarrow> 'd msg list list \<Rightarrow> ('f, 'd) node \<Rightarrow>
     error + (flow \<times> ('f, 'd) node)" where
  "run PlanPath A cfg [] s = Inr (Continue, s)"
| "run PlanPath A cfg (ms # rest) s =
     (case loop_body PlanPath A cfg s of
        Inl e \<Rightarrow> Inl e
      | Inr (Break, s') \<Rightarrow> Inr (Break, s')
      | Inr (Continue, s') \<Rightarrow>
          run PlanPath A cfg rest ((spin_some ms s')\<lparr>nl := nl s' + 1\<rparr>))"

definition main ::
  "'f planner \<Rightarrow> ('f, 'd) arith \<Rightarrow> ('f, 'd) params \<Rightarrow> 'd msg list list \<Rightarrow>
     error + (flow \<times> ('f, 'd) node)" where
  "main PlanPath A cfg ticks = run PlanPath A cfg ticks (main_init A cfg)"

section \<open>Notions used in the statements\<close>

text \<open>The test \<^verbatim>\<open>d<goal_dist\<close> of lines 220 and 229 in a state.\<close>

abbreviation within_goal_dist ::
  "('f, 'd) arith \<Rightarrow> ('f, 'd) params \<Rightarrow> ('f, 'd) node \<Rightarrow> bool" where
  "within_goal_dist A cfg s \<equiv>
     less_d A (distance A (goal s) (odom s)) (to_double A (goal_dist cfg))"

text \<open>The Euclidean distance of two positions of the plane, in the real numbers, for
  comparison with the value that lines 207 to 209 compute.\<close>

definition euclidean_distance :: "real point \<Rightarrow> real point \<Rightarrow> real" where
  "euclidean_distance g p = sqrt ((fst g - fst p)\<^sup>2 + (snd g - snd p)\<^sup>2)"

text \<open>A received waypoint list that the loop has not looked at yet.\<close>

definition new_list_pending :: "('f, 'd) node \<Rightarrow> bool" where
  "new_list_pending s = (waypoints_rcvd s \<and> waypoints_change_once s)"

text \<open>
  The states at the head of the loop from which the next pass reaches the progression
  check with the index and the list it starts with: a pose has been received, the
  state is not -1, and no new list is waiting.
\<close>

definition tracking :: "('f, 'd) node \<Rightarrow> bool" where
  "tracking s = (odom_rcvd s \<and> state_data s \<noteq> - 1 \<and> \<not> new_list_pending s)"

definition at_last_waypoint :: "('f, 'd) node \<Rightarrow> bool" where
  "at_last_waypoint s =
     (current_waypoints s \<noteq> [] \<and>
      current_waypoint s = int (length (current_waypoints s)) - 1)"

text \<open>Two planners for the examples: one finds nothing, one answers with the straight
  line from the position to the goal.\<close>

definition no_path :: "'f planner" where
  "no_path grid seg_grid gl pos = []"

definition straight_path :: "'f planner" where
  "straight_path grid seg_grid gl pos = [pos, gl]"

text \<open>The parts of a result of \<open>run\<close>.\<close>

definition flow_of :: "error + (flow \<times> ('f, 'd) node) \<Rightarrow> flow option" where
  "flow_of r = (case r of Inl e \<Rightarrow> None | Inr (f, s) \<Rightarrow> Some f)"

definition node_of :: "error + (flow \<times> ('f, 'd) node) \<Rightarrow> ('f, 'd) node option" where
  "node_of r = (case r of Inl e \<Rightarrow> None | Inr (f, s) \<Rightarrow> Some s)"

text \<open>The states at the head of the loop from which the next pass takes the branch of
  lines 220 to 226: the index is the last one, and the test \<^verbatim>\<open>d<goal_dist\<close> holds or
  held before.\<close>

definition final_stretch :: "('f, 'd) arith \<Rightarrow> ('f, 'd) params \<Rightarrow> ('f, 'd) node \<Rightarrow> bool" where
  "final_stretch A cfg s =
     (tracking s \<and> at_last_waypoint s \<and> (within_goal_dist A cfg s \<or> shutdown_condition s))"

text \<open>What holds of the state after any number of passes from \<open>main_init\<close>.\<close>

definition body_inv :: "('f, 'd) params \<Rightarrow> ('f, 'd) node \<Rightarrow> bool" where
  "body_inv cfg s =
     ((state_data s = - 1 \<or> state_data s = 0 \<or> state_data s = shutdown_behavior cfg) \<and>
      (\<forall>v \<in> set (state_pub s). v = - 1 \<or> v = 0 \<or> v = shutdown_behavior cfg) \<and>
      0 \<le> shutdown_count s \<and> shutdown_count s \<le> 11 \<and>
      (\<not> shutdown_condition s \<longrightarrow> shutdown_count s = 0) \<and>
      (state_data s = shutdown_behavior cfg \<longrightarrow> shutdown_condition s \<and> odom_rcvd s) \<and>
      0 \<le> current_waypoint s)"

text \<open>At the head of the loop the counter is at most 10: at 11 the loop was left.\<close>

definition head_inv :: "('f, 'd) params \<Rightarrow> ('f, 'd) node \<Rightarrow> bool" where
  "head_inv cfg s = (body_inv cfg s \<and> shutdown_count s \<le> 10)"

section \<open>Binary floating point\<close>

text \<open>
  For the examples, the arithmetic of the machine on the numbers they use: \<^verbatim>\<open>float\<close>
  and \<^verbatim>\<open>double\<close> are the real numbers with 24 and 53 binary digits, every operation
  is the exact one followed by rounding to the nearest such number, ties going to
  the even last digit, and \<^verbatim>\<open>sqrt\<close> is the \<^verbatim>\<open>double\<close> root of the widened argument. The
  exponent is not bounded here: overflow, subnormal numbers, infinities and NaN are
  not part of this instance, and no example comes near them.
\<close>

definition round_even :: "real \<Rightarrow> int" where
  "round_even y =
     (let f = \<lfloor>y\<rfloor>; r = y - of_int f
      in if r < 1 / 2 then f else if 1 / 2 < r then f + 1 else if even f then f else f + 1)"

definition round_to :: "nat \<Rightarrow> real \<Rightarrow> real" where
  "round_to p x =
     (if x = 0 then 0
      else let u = 2 powr of_int (\<lfloor>log 2 \<bar>x\<bar>\<rfloor> - (int p - 1))
           in of_int (round_even (x / u)) * u)"

definition binary_arith :: "(real, real) arith" where
  "binary_arith =
     \<lparr>zero_f = 0, zero_d = 0,
      to_float = round_to 24,
      to_double = (\<lambda>x. x),
      sub_d = (\<lambda>a b. round_to 53 (a - b)),
      mul_f = (\<lambda>a b. round_to 24 (a * b)),
      add_f = (\<lambda>a b. round_to 24 (a + b)),
      sqrt_f = (\<lambda>x. round_to 53 (sqrt x)),
      less_d = (\<lambda>a b. a < b)\<rparr>"

section \<open>Rounding\<close>

lemma round_even_of_int [simp]: "round_even (of_int m) = m"
  by (simp add: round_even_def)

lemma round_to_binade:
  assumes "2 powr of_int k \<le> \<bar>x\<bar>" and "\<bar>x\<bar> < 2 powr of_int (k + 1)"
  shows "round_to p x =
     of_int (round_even (x / 2 powr of_int (k - (int p - 1)))) * 2 powr of_int (k - (int p - 1))"
proof -
  have pos: "0 < \<bar>x\<bar>" using assms(1) by (smt (verit) powr_gt_zero)
  then have x0: "x \<noteq> 0" by simp
  have "\<lfloor>log 2 \<bar>x\<bar>\<rfloor> = k"
    using assms pos by (subst floor_log_eq_powr_iff) simp_all
  then show ?thesis using x0 by (simp add: round_to_def Let_def)
qed

lemma round_to_exact:
  assumes "x = of_int m * 2 powr of_int j" and "\<bar>m\<bar> < 2 ^ p"
  shows "round_to p x = x"
proof (cases "m = 0")
  case True
  then show ?thesis using assms by (simp add: round_to_def)
next
  case False
  define e where "e = \<lfloor>log 2 \<bar>x\<bar>\<rfloor>"
  have ax: "\<bar>x\<bar> = of_int \<bar>m\<bar> * 2 powr of_int j" using assms(1) by (simp add: abs_mult)
  have m1: "1 \<le> \<bar>m\<bar>" using False by simp
  have xpos: "0 < \<bar>x\<bar>" using ax m1 by simp
  have x0: "x \<noteq> 0" using xpos by simp
  have le: "2 powr of_int e \<le> \<bar>x\<bar>"
    using floor_log_eq_powr_iff [of "\<bar>x\<bar>" 2 e] xpos by (simp add: e_def)
  have "\<bar>x\<bar> < 2 ^ p * 2 powr of_int j"
  proof -
    have "real_of_int \<bar>m\<bar> < 2 ^ p"
      using assms(2) by (metis of_int_less_iff of_int_numeral of_int_power)
    then show ?thesis using ax by simp
  qed
  also have "\<dots> = 2 powr of_int (int p + j)"
    by (simp add: powr_add powr_realpow)
  finally have ub: "\<bar>x\<bar> < 2 powr of_int (int p + j)" .
  from le ub have "(2::real) powr of_int e < 2 powr of_int (int p + j)" by (rule le_less_trans)
  then have ej: "e < int p + j" by simp
  define n where "n = nat (j - e + int p - 1)"
  have n: "int n = j - e + int p - 1" using ej by (simp add: n_def)
  let ?u = "2 powr of_int (e - (int p - 1))"
  have "x / ?u = of_int m * 2 powr (of_int j - of_int (e - (int p - 1)))"
    using assms(1) by (simp add: powr_diff)
  also have "of_int j - of_int (e - (int p - 1)) = real n"
  proof -
    have "real_of_int (int n) = of_int j - of_int (e - (int p - 1))"
      unfolding n by simp
    then show ?thesis by simp
  qed
  also have "of_int m * 2 powr real n = of_int (m * 2 ^ n)"
    by (simp add: powr_realpow)
  finally have q: "x / ?u = of_int (m * 2 ^ n)" .
  have "round_to p x = of_int (round_even (x / ?u)) * ?u"
    using x0 by (simp add: round_to_def Let_def e_def)
  also have "\<dots> = (x / ?u) * ?u" unfolding q by (simp only: round_even_of_int)
  also have "\<dots> = x" by simp
  finally show ?thesis .
qed

lemma round_to_0 [simp]: "round_to p 0 = 0"
  by (simp add: round_to_def)

lemma round_to_of_int:
  "\<bar>m\<bar> < 2 ^ p \<Longrightarrow> round_to p (of_int m) = of_int m"
  using round_to_exact [of "of_int m" m 0 p] by simp

lemma round_to_1 [simp]: "0 < p \<Longrightarrow> round_to p 1 = 1"
  using round_to_of_int [of 1 p] by simp

lemma round_to_neg_1 [simp]: "0 < p \<Longrightarrow> round_to p (- 1) = - 1"
  using round_to_of_int [of "- 1" p] by simp

lemma round_to_numeral:
  "(numeral k :: int) < 2 ^ p \<Longrightarrow> round_to p (numeral k) = numeral k"
  using round_to_of_int [of "numeral k" p] by simp

lemma round_to_neg_numeral:
  "(numeral k :: int) < 2 ^ p \<Longrightarrow> round_to p (- numeral k) = - numeral k"
  using round_to_of_int [of "- numeral k" p] by simp

lemma round_to_24_16777217: "round_to 24 16777217 = 16777216"
proof -
  have "round_to 24 16777217 =
     of_int (round_even (16777217 / 2 powr of_int (24 - (int 24 - 1)))) *
       2 powr of_int (24 - (int 24 - 1))"
    by (rule round_to_binade) simp_all
  also have "\<dots> = 16777216" by (simp add: round_even_def)
  finally show ?thesis .
qed

lemma round_to_24_near_3: "round_to 24 (- (3 - 1 / 2 ^ 30)) = - 3"
proof -
  have "round_to 24 (- (3 - 1 / 2 ^ 30)) =
     of_int (round_even (- (3 - 1 / 2 ^ 30) / 2 powr of_int (1 - (int 24 - 1)))) *
       2 powr of_int (1 - (int 24 - 1))"
    by (rule round_to_binade) simp_all
  also have "\<dots> = - 3" by (simp add: round_even_def powr_neg_numeral)
  finally show ?thesis .
qed

lemma round_to_53_near_3: "round_to 53 (- (3 - 1 / 2 ^ 30)) = - (3 - 1 / 2 ^ 30)"
  by (rule round_to_exact [where m = "- 3221225471" and j = "- 30"])
    (simp_all add: powr_neg_numeral)

lemma round_to_53_below_3:
  "round_to 53 (- (3221225471 / 1073741824)) = - (3221225471 / 1073741824)"
  using round_to_53_near_3 by simp

lemma round_to_24_below_3: "round_to 24 (- (3221225471 / 1073741824)) = - 3"
  using round_to_24_near_3 by simp

lemma round_to_24_16777216: "round_to 24 16777216 = 16777216"
  by (rule round_to_exact [where m = 1 and j = 24]) simp_all

lemma sqrt_squares:
  "sqrt 9 = 3" "sqrt 100 = 10" "sqrt 1600 = 40" "sqrt 2500 = 50"
  by (rule real_sqrt_unique; simp)+

section \<open>Path composition\<close>

lemma append_waypoints_drop:
  "poses \<noteq> [] \<Longrightarrow> 0 \<le> cp \<Longrightarrow>
   append_waypoints A poses cp ros_path =
     Inr (ros_path @ map (pose_of_cast A) (drop (nat cp + 1) poses))"
proof (induction A poses cp ros_path rule: append_waypoints.induct)
  case (1 A poses cp ros_path)
  show ?case
  proof (cases "cp < int (length poses) - 1")
    case True
    then have p: "pose_at poses (cp + 1) = Inr (poses ! nat (cp + 1))"
      using 1 by (simp add: pose_at_def)
    have lt: "lt_size_minus_1 cp (length poses)"
      using True 1 by (simp add: lt_size_minus_1_def)
    have "append_waypoints A poses cp ros_path =
          append_waypoints A poses (cp + 1) (ros_path @ [pose_of_cast A (poses ! nat (cp + 1))])"
      using lt p by (subst append_waypoints.simps) simp
    also have "\<dots> = Inr ((ros_path @ [pose_of_cast A (poses ! nat (cp + 1))]) @
        map (pose_of_cast A) (drop (nat (cp + 1) + 1) poses))"
      using 1 lt p by simp
    also have "\<dots> = Inr (ros_path @ map (pose_of_cast A) (drop (nat cp + 1) poses))"
    proof -
      have "nat (cp + 1) < length poses" using True 1 by simp
      then have "drop (nat (cp + 1)) poses =
                 poses ! nat (cp + 1) # drop (Suc (nat (cp + 1))) poses"
        by (simp add: Cons_nth_drop_Suc)
      moreover have "nat (cp + 1) = nat cp + 1" using 1 by simp
      ultimately show ?thesis by simp
    qed
    finally show ?thesis .
  next
    case False
    then have "\<not> lt_size_minus_1 cp (length poses)"
      using 1 by (simp add: lt_size_minus_1_def)
    moreover have "drop (nat cp + 1) poses = []" using False 1 by simp
    ultimately show ?thesis by (subst append_waypoints.simps) simp
  qed
qed

lemma drop_as_map_nth: "drop n xs = map (\<lambda>i. xs ! i) [n ..< length xs]"
  by (rule nth_equalityI) simp_all

lemma compose_path_short:
  "length path \<le> 1 \<Longrightarrow> compose_path A path poses cw = Inr (map (pose_of_floats A) path)"
  by (simp add: compose_path_def)

lemma compose_path_long:
  "1 < length path \<Longrightarrow> poses \<noteq> [] \<Longrightarrow> 0 \<le> cw \<Longrightarrow>
   compose_path A path poses cw =
     Inr (map (pose_of_floats A) path @ map (pose_of_cast A) (drop (nat cw + 1) poses))"
  by (simp add: compose_path_def append_waypoints_drop)

lemma compose_path_ok:
  "poses \<noteq> [] \<Longrightarrow> 0 \<le> cw \<Longrightarrow> \<exists>r. compose_path A path poses cw = Inr r"
  by (cases "1 < length path") (simp_all add: compose_path_long compose_path_short)

section \<open>Callbacks, branches and the loop body\<close>

lemmas callback_defs = OdometryCallback_def MapCallback_def SegmentationMapCallback_def WaypointCallback_def

lemma dispatch_locals [simp]:
  "state_data (dispatch m s) = state_data s"
  "goal (dispatch m s) = goal s"
  "shutdown_condition (dispatch m s) = shutdown_condition s"
  "nl (dispatch m s) = nl s"
  "current_waypoint (dispatch m s) = current_waypoint s"
  "shutdown_count (dispatch m s) = shutdown_count s"
  "waypoints_change_once (dispatch m s) = waypoints_change_once s"
  "state_pub (dispatch m s) = state_pub s"
  "path_pub (dispatch m s) = path_pub s"
  "waypoint_pub (dispatch m s) = waypoint_pub s"
  "current_waypoint_pub (dispatch m s) = current_waypoint_pub s"
  "dist_to_current_waypoint_pub (dispatch m s) = dist_to_current_waypoint_pub s"
  by (cases m; simp add: callback_defs)+

lemma spin_some_locals [simp]:
  "state_data (spin_some ms s) = state_data s"
  "goal (spin_some ms s) = goal s"
  "shutdown_condition (spin_some ms s) = shutdown_condition s"
  "nl (spin_some ms s) = nl s"
  "current_waypoint (spin_some ms s) = current_waypoint s"
  "shutdown_count (spin_some ms s) = shutdown_count s"
  "waypoints_change_once (spin_some ms s) = waypoints_change_once s"
  "state_pub (spin_some ms s) = state_pub s"
  "path_pub (spin_some ms s) = path_pub s"
  "waypoint_pub (spin_some ms s) = waypoint_pub s"
  "current_waypoint_pub (spin_some ms s) = current_waypoint_pub s"
  "dist_to_current_waypoint_pub (spin_some ms s) = dist_to_current_waypoint_pub s"
  by (induction ms arbitrary: s; simp)+

lemma spin_some_odom_rcvd: "odom_rcvd s \<Longrightarrow> odom_rcvd (spin_some ms s)"
proof (induction ms arbitrary: s)
  case Nil
  then show ?case by simp
next
  case (Cons m ms)
  have "odom_rcvd (dispatch m s)" using Cons.prems by (cases m) (simp_all add: callback_defs)
  then show ?case using Cons.IH by simp
qed

lemma spin_some_waypoints_rcvd: "waypoints_rcvd s \<Longrightarrow> waypoints_rcvd (spin_some ms s)"
proof (induction ms arbitrary: s)
  case Nil
  then show ?case by simp
next
  case (Cons m ms)
  have "waypoints_rcvd (dispatch m s)" using Cons.prems by (cases m) (simp_all add: callback_defs)
  then show ?case using Cons.IH by simp
qed

lemma spin_some_no_waypoints:
  "\<not> brings_waypoints ms \<Longrightarrow>
   current_waypoints (spin_some ms s) = current_waypoints s \<and>
   waypoints_rcvd (spin_some ms s) = waypoints_rcvd s"
proof (induction ms arbitrary: s)
  case Nil
  then show ?case by simp
next
  case (Cons m ms)
  from Cons.prems have m: "\<not> is_new_waypoints m" and ms: "\<not> brings_waypoints ms"
    by (simp_all add: brings_waypoints_def)
  from m have "current_waypoints (dispatch m s) = current_waypoints s \<and>
      waypoints_rcvd (dispatch m s) = waypoints_rcvd s"
    by (cases m) (simp_all add: callback_defs)
  with Cons.IH [OF ms, of "dispatch m s"] show ?case by simp
qed

lemma spin_some_brings_waypoints:
  "brings_waypoints ms \<Longrightarrow> waypoints_rcvd (spin_some ms s)"
proof (induction ms arbitrary: s)
  case Nil
  then show ?case by (simp add: brings_waypoints_def)
next
  case (Cons m ms)
  show ?case
  proof (cases "is_new_waypoints m")
    case True
    then have "waypoints_rcvd (dispatch m s)" by (cases m) (simp_all add: callback_defs)
    then show ?thesis using spin_some_waypoints_rcvd by simp
  next
    case False
    with Cons.prems have "brings_waypoints ms" by (simp add: brings_waypoints_def)
    then show ?thesis using Cons.IH by simp
  qed
qed

subsection \<open>The branches of the progression check\<close>

lemma check_progression_last:
  assumes "current_waypoint s = int (length (current_waypoints s)) - 1"
    and "within_goal_dist A cfg s \<or> shutdown_condition s"
  shows "check_progression A cfg s =
     Inr (if shutdown_count s + 1 > 10 then Break else Continue,
          s\<lparr>current_waypoint_pub := current_waypoint_pub s @ [current_waypoint s],
            dist_to_current_waypoint_pub :=
              dist_to_current_waypoint_pub s @ [distance A (goal s) (odom s)],
            shutdown_condition := True,
            state_data := shutdown_behavior cfg,
            state_pub := state_pub s @ [shutdown_behavior cfg],
            shutdown_count := shutdown_count s + 1\<rparr>)"
  using assms by (auto simp: check_progression_def eq_size_minus_1_def Let_def)

lemma check_progression_last_far:
  assumes "current_waypoint s = int (length (current_waypoints s)) - 1"
    and "\<not> within_goal_dist A cfg s" "\<not> shutdown_condition s"
  shows "check_progression A cfg s =
     Inr (Continue,
          s\<lparr>current_waypoint_pub := current_waypoint_pub s @ [current_waypoint s],
            dist_to_current_waypoint_pub :=
              dist_to_current_waypoint_pub s @ [distance A (goal s) (odom s)]\<rparr>)"
  using assms by (auto simp: check_progression_def eq_size_minus_1_def Let_def)

lemma check_progression_advance:
  assumes "current_waypoint s \<noteq> int (length (current_waypoints s)) - 1"
    and "0 \<le> current_waypoint s + 1"
    and "current_waypoint s + 1 < int (length (current_waypoints s))"
    and "within_goal_dist A cfg s"
  shows "check_progression A cfg s =
     Inr (Continue,
          s\<lparr>current_waypoint_pub := current_waypoint_pub s @ [current_waypoint s],
            dist_to_current_waypoint_pub :=
              dist_to_current_waypoint_pub s @ [distance A (goal s) (odom s)],
            current_waypoint := current_waypoint s + 1,
            goal := to_float_point A (current_waypoints s ! nat (current_waypoint s + 1)),
            state_data := 0,
            state_pub := state_pub s @ [0]\<rparr>)"
  using assms by (auto simp: check_progression_def eq_size_minus_1_def pose_at_def Let_def)

lemma check_progression_stay:
  assumes "current_waypoint s \<noteq> int (length (current_waypoints s)) - 1"
    and "\<not> within_goal_dist A cfg s"
  shows "check_progression A cfg s =
     Inr (Continue,
          s\<lparr>current_waypoint_pub := current_waypoint_pub s @ [current_waypoint s],
            dist_to_current_waypoint_pub :=
              dist_to_current_waypoint_pub s @ [distance A (goal s) (odom s)],
            state_data := 0,
            state_pub := state_pub s @ [0]\<rparr>)"
  using assms by (auto simp: check_progression_def eq_size_minus_1_def pose_at_def Let_def)

subsection \<open>The loop body\<close>

lemma loop_body_tracking:
  assumes "tracking s" and "current_waypoints s \<noteq> []" and "0 \<le> current_waypoint s"
  shows "\<exists>ros_path. 
     compose_path A (PlanPath (current_grid s) (segmentation_grid s) (goal s)
          (to_float_point A (odom s)))
        (current_waypoints s) (current_waypoint s) = Inr ros_path \<and>
     loop_body PlanPath A cfg s =
       check_progression A cfg
         (s\<lparr>state_pub := state_pub s @ [state_data s],
            path_pub := path_pub s @ [ros_path],
            waypoint_pub := waypoint_pub s @ [current_waypoints s]\<rparr>)"
proof -
  obtain r where r: "compose_path A (PlanPath (current_grid s) (segmentation_grid s) (goal s)
          (to_float_point A (odom s)))
        (current_waypoints s) (current_waypoint s) = Inr r"
    using compose_path_ok [OF assms(2,3)] by blast
  have "process_new_waypoints A (s\<lparr>state_pub := state_pub s @ [state_data s]\<rparr>) =
        Inr (s\<lparr>state_pub := state_pub s @ [state_data s]\<rparr>)"
    using assms(1) by (auto simp: process_new_waypoints_def tracking_def new_list_pending_def)
  then have "loop_body PlanPath A cfg s =
       check_progression A cfg
         (s\<lparr>state_pub := state_pub s @ [state_data s],
            path_pub := path_pub s @ [r],
            waypoint_pub := waypoint_pub s @ [current_waypoints s]\<rparr>)"
    using assms(1) r by (simp add: loop_body_def tracking_def Let_def)
  with r show ?thesis by blast
qed

lemma loop_body_idle:
  assumes "\<not> new_list_pending s" and "\<not> odom_rcvd s \<or> state_data s = - 1"
  shows "loop_body PlanPath A cfg s = Inr (Continue, s\<lparr>state_pub := state_pub s @ [state_data s]\<rparr>)"
  using assms by (auto simp: loop_body_def process_new_waypoints_def new_list_pending_def Let_def)


lemma shutdown_behavior_range: "shutdown_behavior cfg \<in> {1, 2, 3}"
  by (auto simp: shutdown_behavior_def Let_def)

lemma shutdown_behavior_neq [simp]:
  "shutdown_behavior cfg \<noteq> 0" "shutdown_behavior cfg \<noteq> - 1"
  "0 \<noteq> shutdown_behavior cfg" "- 1 \<noteq> shutdown_behavior cfg"
  using shutdown_behavior_range [of cfg] by auto

lemma process_new_waypoints_cases:
  assumes "process_new_waypoints A s = Inr s'"
  obtains (applied) "new_list_pending s" "current_waypoints s \<noteq> []"
      "s' = s\<lparr>current_waypoint := 0, goal := to_float_point A (current_waypoints s ! 0),
               waypoints_change_once := False, state_data := 0,
               state_pub := state_pub s @ [0]\<rparr>"
    | (skipped) "\<not> new_list_pending s" "s' = s"
proof (cases "new_list_pending s")
  case True
  show ?thesis
  proof (cases "current_waypoints s = []")
    case e: True
    then have "process_new_waypoints A s = Inl OutOfRange"
      using True by (simp add: process_new_waypoints_def new_list_pending_def pose_at_def)
    with assms show ?thesis by simp
  next
    case e: False
    then have "process_new_waypoints A s =
        Inr (s\<lparr>current_waypoint := 0, goal := to_float_point A (current_waypoints s ! 0),
               waypoints_change_once := False, state_data := 0,
               state_pub := state_pub s @ [0]\<rparr>)"
      using True by (simp add: process_new_waypoints_def new_list_pending_def pose_at_def)
    with assms have "s' = s\<lparr>current_waypoint := 0, goal := to_float_point A (current_waypoints s ! 0),
               waypoints_change_once := False, state_data := 0,
               state_pub := state_pub s @ [0]\<rparr>" by simp
    with True e show ?thesis by (rule applied)
  qed
next
  case False
  then have "process_new_waypoints A s = Inr s"
    by (auto simp: process_new_waypoints_def new_list_pending_def)
  with assms have "s' = s" by simp
  with False show ?thesis by (rule skipped)
qed

lemma check_progression_cases:
  assumes "check_progression A cfg s = Inr (f, s')"
  obtains
    (reached) "current_waypoint s = int (length (current_waypoints s)) - 1"
      "within_goal_dist A cfg s \<or> shutdown_condition s"
      "f = (if shutdown_count s + 1 > 10 then Break else Continue)"
      "s' = s\<lparr>current_waypoint_pub := current_waypoint_pub s @ [current_waypoint s],
            dist_to_current_waypoint_pub :=
              dist_to_current_waypoint_pub s @ [distance A (goal s) (odom s)],
            shutdown_condition := True,
            state_data := shutdown_behavior cfg,
            state_pub := state_pub s @ [shutdown_behavior cfg],
            shutdown_count := shutdown_count s + 1\<rparr>"
  | (far) "current_waypoint s = int (length (current_waypoints s)) - 1"
      "\<not> within_goal_dist A cfg s" "\<not> shutdown_condition s"
      "f = Continue"
      "s' = s\<lparr>current_waypoint_pub := current_waypoint_pub s @ [current_waypoint s],
            dist_to_current_waypoint_pub :=
              dist_to_current_waypoint_pub s @ [distance A (goal s) (odom s)]\<rparr>"
  | (advance) "current_waypoint s \<noteq> int (length (current_waypoints s)) - 1"
      "within_goal_dist A cfg s"
      "0 \<le> current_waypoint s + 1" "current_waypoint s + 1 < int (length (current_waypoints s))"
      "f = Continue"
      "s' = s\<lparr>current_waypoint_pub := current_waypoint_pub s @ [current_waypoint s],
            dist_to_current_waypoint_pub :=
              dist_to_current_waypoint_pub s @ [distance A (goal s) (odom s)],
            current_waypoint := current_waypoint s + 1,
            goal := to_float_point A (current_waypoints s ! nat (current_waypoint s + 1)),
            state_data := 0,
            state_pub := state_pub s @ [0]\<rparr>"
  | (stay) "current_waypoint s \<noteq> int (length (current_waypoints s)) - 1"
      "\<not> within_goal_dist A cfg s"
      "f = Continue"
      "s' = s\<lparr>current_waypoint_pub := current_waypoint_pub s @ [current_waypoint s],
            dist_to_current_waypoint_pub :=
              dist_to_current_waypoint_pub s @ [distance A (goal s) (odom s)],
            state_data := 0,
            state_pub := state_pub s @ [0]\<rparr>"
proof (cases "current_waypoint s = int (length (current_waypoints s)) - 1")
  case True
  show ?thesis
  proof (cases "within_goal_dist A cfg s \<or> shutdown_condition s")
    case c: True
    from check_progression_last [OF True c, of ] assms show ?thesis
      using reached True c by simp
  next
    case c: False
    from check_progression_last_far [OF True, of A cfg] c assms show ?thesis
      using far True by simp
  qed
next
  case False
  show ?thesis
  proof (cases "within_goal_dist A cfg s")
    case c: True
    show ?thesis
    proof (cases "0 \<le> current_waypoint s + 1 \<and> current_waypoint s + 1 < int (length (current_waypoints s))")
      case r: True
      then have r1: "0 \<le> current_waypoint s + 1"
        and r2: "current_waypoint s + 1 < int (length (current_waypoints s))"
        by simp_all
      from check_progression_advance [OF False r1 r2 c] assms show ?thesis
        using advance False c r1 r2 by simp
    next
      case r: False
      then have "pose_at (current_waypoints s) (current_waypoint s + 1) = Inl OutOfRange"
        by (simp add: pose_at_def)
      then have "check_progression A cfg s = Inl OutOfRange"
        using False c by (simp add: check_progression_def eq_size_minus_1_def Let_def)
      with assms show ?thesis by simp
    qed
  next
    case c: False
    from check_progression_stay [OF False c] assms show ?thesis
      using stay False c by simp
  qed
qed

lemma loop_body_cases:
  assumes "loop_body PlanPath A cfg s = Inr (f, s')"
  obtains 
    (idle) s2 where "process_new_waypoints A (s\<lparr>state_pub := state_pub s @ [state_data s]\<rparr>) = Inr s2"
      "\<not> (odom_rcvd s2 \<and> state_data s2 \<noteq> - 1)" "f = Continue" "s' = s2"
  | (track) s2 ros_path where "process_new_waypoints A (s\<lparr>state_pub := state_pub s @ [state_data s]\<rparr>) = Inr s2"
      "odom_rcvd s2" "state_data s2 \<noteq> - 1"
      "compose_path A (PlanPath (current_grid s2) (segmentation_grid s2) (goal s2)
          (to_float_point A (odom s2)))
          (current_waypoints s2) (current_waypoint s2) = Inr ros_path"
      "check_progression A cfg (s2\<lparr>path_pub := path_pub s2 @ [ros_path],
          waypoint_pub := waypoint_pub s2 @ [current_waypoints s2]\<rparr>) = Inr (f, s')"
proof (cases "process_new_waypoints A (s\<lparr>state_pub := state_pub s @ [state_data s]\<rparr>)")
  case (Inl e)
  then have "loop_body PlanPath A cfg s = Inl e" by (simp add: loop_body_def Let_def)
  with assms show ?thesis by simp
next
  case (Inr s2)
  show ?thesis
  proof (cases "odom_rcvd s2 \<and> state_data s2 \<noteq> - 1")
    case False
    then have "loop_body PlanPath A cfg s = Inr (Continue, s2)"
      using Inr by (auto simp: loop_body_def Let_def)
    with assms have "f = Continue" "s' = s2" by simp_all
    with Inr False show ?thesis by (rule idle)
  next
    case True
    show ?thesis
    proof (cases "compose_path A (PlanPath (current_grid s2) (segmentation_grid s2) (goal s2)
          (to_float_point A (odom s2)))
          (current_waypoints s2) (current_waypoint s2)")
      case e: (Inl e)
      then have "loop_body PlanPath A cfg s = Inl e"
        using Inr True by (simp add: loop_body_def Let_def)
      with assms show ?thesis by simp
    next
      case r: (Inr ros_path)
      then have "loop_body PlanPath A cfg s = check_progression A cfg (s2\<lparr>path_pub := path_pub s2 @ [ros_path],
          waypoint_pub := waypoint_pub s2 @ [current_waypoints s2]\<rparr>)"
        using Inr True by (simp add: loop_body_def Let_def)
      with assms have "check_progression A cfg (s2\<lparr>path_pub := path_pub s2 @ [ros_path],
          waypoint_pub := waypoint_pub s2 @ [current_waypoints s2]\<rparr>) = Inr (f, s')" by simp
      with Inr True r show ?thesis using track by blast
    qed
  qed
qed

section \<open>Runs of the loop\<close>

lemma final_body:
  assumes "final_stretch A cfg s"
  shows "\<exists>s'. loop_body PlanPath A cfg s =
        Inr (if shutdown_count s + 1 > 10 then Break else Continue, s') \<and>
      state_pub s' = state_pub s @ [state_data s, shutdown_behavior cfg] \<and>
      state_data s' = shutdown_behavior cfg \<and>
      shutdown_condition s' \<and>
      shutdown_count s' = shutdown_count s + 1 \<and>
      current_waypoint s' = current_waypoint s \<and>
      current_waypoints s' = current_waypoints s \<and>
      goal s' = goal s \<and> odom s' = odom s \<and> odom_rcvd s' \<and>
      waypoints_rcvd s' = waypoints_rcvd s \<and>
      waypoints_change_once s' = waypoints_change_once s"
proof -
  from assms have tr: "tracking s" and al: "at_last_waypoint s"
    and dc: "within_goal_dist A cfg s \<or> shutdown_condition s"
    by (simp_all add: final_stretch_def)
  from al have ne: "current_waypoints s \<noteq> []" and cw: "0 \<le> current_waypoint s"
    and last: "current_waypoint s = int (length (current_waypoints s)) - 1"
    by (auto simp: at_last_waypoint_def)
  from loop_body_tracking [OF tr ne cw, of A PlanPath cfg]
  obtain ros_path where
    body: "loop_body PlanPath A cfg s =
       check_progression A cfg
         (s\<lparr>state_pub := state_pub s @ [state_data s],
            path_pub := path_pub s @ [ros_path],
            waypoint_pub := waypoint_pub s @ [current_waypoints s]\<rparr>)"
    by blast
  let ?t = "s\<lparr>state_pub := state_pub s @ [state_data s],
            path_pub := path_pub s @ [ros_path],
            waypoint_pub := waypoint_pub s @ [current_waypoints s]\<rparr>"
  have "check_progression A cfg ?t =
     Inr (if shutdown_count ?t + 1 > 10 then Break else Continue,
          ?t\<lparr>current_waypoint_pub := current_waypoint_pub ?t @ [current_waypoint ?t],
            dist_to_current_waypoint_pub :=
              dist_to_current_waypoint_pub ?t @ [distance A (goal ?t) (odom ?t)],
            shutdown_condition := True,
            state_data := shutdown_behavior cfg,
            state_pub := state_pub ?t @ [shutdown_behavior cfg],
            shutdown_count := shutdown_count ?t + 1\<rparr>)"
    using last dc by (intro check_progression_last) simp_all
  with body tr show ?thesis by (simp add: tracking_def)
qed

lemma final_stretch_spin:
  assumes "tracking s" "at_last_waypoint s" "shutdown_condition s'" "odom_rcvd s'"
    and "state_data s' \<noteq> - 1"
    and "current_waypoint s' = current_waypoint s"
    and "current_waypoints s' = current_waypoints s"
    and "waypoints_rcvd s' = waypoints_rcvd s"
    and "waypoints_change_once s' = waypoints_change_once s"
    and "\<not> brings_waypoints ms"
  shows "final_stretch A cfg ((spin_some ms s')\<lparr>nl := nl s' + 1\<rparr>)"
  using assms spin_some_no_waypoints [OF assms(10), of s'] spin_some_odom_rcvd [of s' ms]
  by (simp add: final_stretch_def tracking_def at_last_waypoint_def new_list_pending_def)

lemma final_run:
  assumes "final_stretch A cfg s"
    and "\<forall>ms \<in> set ticks. \<not> brings_waypoints ms"
    and "0 \<le> shutdown_count s" and "shutdown_count s \<le> 10"
  shows "\<exists>s'. run PlanPath A cfg ticks s =
        Inr (if 10 < shutdown_count s + int (length ticks) then Break else Continue, s') \<and>
      shutdown_count s' = min (shutdown_count s + int (length ticks)) 11 \<and>
      current_waypoint s' = current_waypoint s \<and>
      current_waypoints s' = current_waypoints s \<and>
      (ticks \<noteq> [] \<longrightarrow>
         state_data s' = shutdown_behavior cfg \<and>
         state_pub s' =
           state_pub s @ state_data s #
             replicate (nat (2 * (shutdown_count s' - shutdown_count s) - 1))
               (shutdown_behavior cfg))"
  using assms
proof (induction ticks arbitrary: s)
  case Nil
  then show ?case by simp
next
  case (Cons ms rest)
  from final_body [OF Cons.prems(1), of PlanPath]
  obtain s1 where body: "loop_body PlanPath A cfg s =
        Inr (if shutdown_count s + 1 > 10 then Break else Continue, s1)"
    and pub: "state_pub s1 = state_pub s @ [state_data s, shutdown_behavior cfg]"
    and sd: "state_data s1 = shutdown_behavior cfg"
    and sc: "shutdown_condition s1"
    and cnt: "shutdown_count s1 = shutdown_count s + 1"
    and cw: "current_waypoint s1 = current_waypoint s"
    and wps: "current_waypoints s1 = current_waypoints s"
    and od: "odom_rcvd s1"
    and wr: "waypoints_rcvd s1 = waypoints_rcvd s"
    and wc: "waypoints_change_once s1 = waypoints_change_once s"
    by blast
  show ?case
  proof (cases "shutdown_count s + 1 > 10")
    case True
    then have c10: "shutdown_count s = 10" using Cons.prems(4) by simp
    have "run PlanPath A cfg (ms # rest) s = Inr (Break, s1)"
      using body True by simp
    then show ?thesis using c10 pub sd cnt cw wps by simp
  next
    case False
    let ?s2 = "(spin_some ms s1)\<lparr>nl := nl s1 + 1\<rparr>"
    from Cons.prems(1) have tr: "tracking s" and al: "at_last_waypoint s"
      by (simp_all add: final_stretch_def)
    from Cons.prems(2) have nms: "\<not> brings_waypoints ms"
      and nrest: "\<forall>ms \<in> set rest. \<not> brings_waypoints ms" by simp_all
    have fs: "final_stretch A cfg ?s2"
      using final_stretch_spin [OF tr al sc od _ cw wps wr wc nms] sd by simp
    have c2: "shutdown_count ?s2 = shutdown_count s + 1" using cnt by simp
    have r: "run PlanPath A cfg (ms # rest) s = run PlanPath A cfg rest ?s2"
      using body False by simp
    from Cons.IH [OF fs nrest] c2 False Cons.prems(3)
    obtain s' where run2: "run PlanPath A cfg rest ?s2 =
        Inr (if 10 < shutdown_count s + 1 + int (length rest) then Break else Continue, s')"
      and cnt': "shutdown_count s' = min (shutdown_count s + 1 + int (length rest)) 11"
      and cw': "current_waypoint s' = current_waypoint ?s2"
      and wps': "current_waypoints s' = current_waypoints ?s2"
      and pubs': "rest \<noteq> [] \<longrightarrow>
         state_data s' = shutdown_behavior cfg \<and>
         state_pub s' =
           state_pub ?s2 @ state_data ?s2 #
             replicate (nat (2 * (shutdown_count s' - (shutdown_count s + 1)) - 1))
               (shutdown_behavior cfg)"
      by auto
    have wps2: "current_waypoints ?s2 = current_waypoints s"
      using spin_some_no_waypoints [OF nms, of s1] wps by simp
    show ?thesis
    proof (cases "rest = []")
      case True
      then show ?thesis using r pub sd cnt cw wps2 False Cons.prems(3) by simp
    next
      case ne: False
      then have l: "1 \<le> int (length rest)" by (cases rest) simp_all
      from pubs' ne have sd': "state_data s' = shutdown_behavior cfg"
        and p': "state_pub s' =
           state_pub ?s2 @ state_data ?s2 #
             replicate (nat (2 * (shutdown_count s' - (shutdown_count s + 1)) - 1))
               (shutdown_behavior cfg)" by simp_all
      have gt: "shutdown_count s' - (shutdown_count s + 1) \<ge> 1"
        using cnt' l False by simp
      have "nat (2 * (shutdown_count s' - shutdown_count s) - 1) =
            Suc (Suc (nat (2 * (shutdown_count s' - (shutdown_count s + 1)) - 1)))"
        using gt by simp
      then have "state_pub s' = state_pub s @ state_data s #
             replicate (nat (2 * (shutdown_count s' - shutdown_count s) - 1))
               (shutdown_behavior cfg)"
        using p' pub sd by (simp add: replicate_append_same)
      then show ?thesis using r run2 cnt' cw' wps' wps2 cw sd' by (simp add: add.commute add.left_commute)
    qed
  qed
qed

lemma head_inv_init: "head_inv cfg (main_init A cfg)"
  by (simp add: head_inv_def body_inv_def main_init_def startup_def)

lemma head_inv_spin:
  "head_inv cfg s \<Longrightarrow> head_inv cfg ((spin_some ms s)\<lparr>nl := k\<rparr>)"
  using spin_some_odom_rcvd [of s ms] by (simp add: head_inv_def body_inv_def)

lemma body_inv_published:
  "body_inv cfg s \<Longrightarrow> body_inv cfg (s\<lparr>state_pub := state_pub s @ [state_data s]\<rparr>)"
  by (auto simp: body_inv_def)

lemma body_inv_new_waypoints:
  assumes "body_inv cfg s" and "process_new_waypoints A s = Inr s'"
  shows "body_inv cfg s'"
  using assms(2)
proof (cases rule: process_new_waypoints_cases)
  case applied
  with assms(1) show ?thesis by (auto simp: body_inv_def)
next
  case skipped
  with assms(1) show ?thesis by simp
qed

lemma body_inv_paths:
  "body_inv cfg s \<Longrightarrow> body_inv cfg (s\<lparr>path_pub := p, waypoint_pub := w\<rparr>)"
  by (simp add: body_inv_def)

lemma body_inv_progression:
  assumes "body_inv cfg s" and "shutdown_count s \<le> 10" and "odom_rcvd s"
    and "check_progression A cfg s = Inr (f, s')"
  shows "body_inv cfg s' \<and> (f = Continue \<longrightarrow> shutdown_count s' \<le> 10) \<and>
     (f = Break \<longrightarrow> shutdown_count s' = 11 \<and> state_data s' = shutdown_behavior cfg \<and>
        state_pub s' \<noteq> [] \<and> last (state_pub s') = shutdown_behavior cfg)"
  using assms(4)
proof (cases rule: check_progression_cases)
  case reached
  with assms(1,2,3) show ?thesis by (auto simp: body_inv_def)
next
  case far
  with assms(1,2,3) show ?thesis by (auto simp: body_inv_def)
next
  case advance
  with assms(1,2,3) show ?thesis by (auto simp: body_inv_def)
next
  case stay
  with assms(1,2,3) show ?thesis by (auto simp: body_inv_def)
qed

lemma process_new_waypoints_keeps:
  assumes "process_new_waypoints A s = Inr s'"
  shows "shutdown_count s' = shutdown_count s \<and> odom_rcvd s' = odom_rcvd s \<and>
     shutdown_condition s' = shutdown_condition s \<and> odom s' = odom s \<and>
     current_waypoints s' = current_waypoints s \<and> waypoints_rcvd s' = waypoints_rcvd s \<and>
     path_pub s' = path_pub s \<and> waypoint_pub s' = waypoint_pub s \<and>
     current_waypoint_pub s' = current_waypoint_pub s \<and> nl s' = nl s"
  using assms by (cases rule: process_new_waypoints_cases) simp_all

lemma head_inv_body:
  assumes "head_inv cfg s" and "loop_body PlanPath A cfg s = Inr (f, s')"
  shows "body_inv cfg s' \<and> (f = Continue \<longrightarrow> head_inv cfg s') \<and>
     (f = Break \<longrightarrow> shutdown_count s' = 11 \<and> state_data s' = shutdown_behavior cfg \<and>
        state_pub s' \<noteq> [] \<and> last (state_pub s') = shutdown_behavior cfg)"
  using assms(2)
proof (cases rule: loop_body_cases)
  case (idle s2)
  from assms(1) have "body_inv cfg (s\<lparr>state_pub := state_pub s @ [state_data s]\<rparr>)"
    by (simp add: head_inv_def body_inv_published)
  then have b2: "body_inv cfg s2" using idle(1) by (rule body_inv_new_waypoints)
  from process_new_waypoints_keeps [OF idle(1)] assms(1)
  have "shutdown_count s2 \<le> 10" by (simp add: head_inv_def)
  with b2 idle show ?thesis by (simp add: head_inv_def)
next
  case (track s2 ros_path)
  from assms(1) have "body_inv cfg (s\<lparr>state_pub := state_pub s @ [state_data s]\<rparr>)"
    by (simp add: head_inv_def body_inv_published)
  then have b2: "body_inv cfg s2" using track(1) by (rule body_inv_new_waypoints)
  from process_new_waypoints_keeps [OF track(1)] assms(1)
  have c2: "shutdown_count s2 \<le> 10" by (simp add: head_inv_def)
  let ?s3 = "s2\<lparr>path_pub := path_pub s2 @ [ros_path],
          waypoint_pub := waypoint_pub s2 @ [current_waypoints s2]\<rparr>"
  have b3: "body_inv cfg ?s3" using b2 by (rule body_inv_paths)
  have "shutdown_count ?s3 \<le> 10" "odom_rcvd ?s3" using c2 track(2) by simp_all
  from body_inv_progression [OF b3 this track(5)] show ?thesis
    by (simp add: head_inv_def)
qed

lemma run_head_inv:
  assumes "head_inv cfg s" and "run PlanPath A cfg ticks s = Inr (f, s')"
  shows "body_inv cfg s' \<and> (f = Continue \<longrightarrow> head_inv cfg s') \<and>
     (f = Break \<longrightarrow> shutdown_count s' = 11 \<and> state_data s' = shutdown_behavior cfg \<and>
        state_pub s' \<noteq> [] \<and> last (state_pub s') = shutdown_behavior cfg)"
  using assms
proof (induction ticks arbitrary: s)
  case Nil
  then show ?case by (simp add: head_inv_def)
next
  case (Cons ms rest)
  show ?case
  proof (cases "loop_body PlanPath A cfg s")
    case (Inl e)
    with Cons.prems(2) show ?thesis by simp
  next
    case (Inr r)
    obtain f1 s1 where r: "r = (f1, s1)" by (cases r)
    show ?thesis
    proof (cases f1)
      case Break
      with Inr r Cons.prems(2) have "f = Break" "s' = s1" by simp_all
      with head_inv_body [OF Cons.prems(1), of PlanPath A f1 s1] Inr r Break
      show ?thesis by simp
    next
      case Continue
      with head_inv_body [OF Cons.prems(1), of PlanPath A f1 s1] Inr r
      have "head_inv cfg s1" by simp
      then have h: "head_inv cfg ((spin_some ms s1)\<lparr>nl := nl s1 + 1\<rparr>)"
        by (rule head_inv_spin)
      from Cons.prems(2) Inr r Continue
      have "run PlanPath A cfg rest ((spin_some ms s1)\<lparr>nl := nl s1 + 1\<rparr>) = Inr (f, s')"
        by simp
      from Cons.IH [OF h this] show ?thesis .
    qed
  qed
qed

lemma run_append:
  "run PlanPath A cfg (a @ b) s =
     (case run PlanPath A cfg a s of
        Inl e \<Rightarrow> Inl e
      | Inr (Break, s') \<Rightarrow> Inr (Break, s')
      | Inr (Continue, s') \<Rightarrow> run PlanPath A cfg b s')"
proof (induction a arbitrary: s)
  case Nil
  then show ?case by simp
next
  case (Cons ms rest)
  show ?case
  proof (cases "loop_body PlanPath A cfg s")
    case (Inl e)
    then show ?thesis by simp
  next
    case (Inr r)
    obtain f1 s1 where r: "r = (f1, s1)" by (cases r)
    show ?thesis using Inr r Cons.IH by (cases f1) simp_all
  qed
qed

lemma loop_body_count:
  assumes "loop_body PlanPath A cfg s = Inr (f, s')"
  shows "shutdown_count s' \<le> shutdown_count s + 1"
  using assms
proof (cases rule: loop_body_cases)
  case (idle s2)
  with process_new_waypoints_keeps [OF idle(1)] show ?thesis by simp
next
  case (track s2 ros_path)
  from track(5) have "shutdown_count s' \<le> shutdown_count s2 + 1"
    by (cases rule: check_progression_cases) simp_all
  with process_new_waypoints_keeps [OF track(1)] show ?thesis by simp
qed

lemma run_count:
  assumes "run PlanPath A cfg ticks s = Inr (f, s')"
  shows "shutdown_count s' \<le> shutdown_count s + int (length ticks)"
  using assms
proof (induction ticks arbitrary: s)
  case Nil
  then show ?case by simp
next
  case (Cons ms rest)
  show ?case
  proof (cases "loop_body PlanPath A cfg s")
    case (Inl e)
    with Cons.prems show ?thesis by simp
  next
    case (Inr r)
    obtain f1 s1 where r: "r = (f1, s1)" by (cases r)
    from loop_body_count [of PlanPath A cfg s f1 s1] Inr r
    have c1: "shutdown_count s1 \<le> shutdown_count s + 1" by simp
    show ?thesis
    proof (cases f1)
      case Break
      with Inr r Cons.prems have "s' = s1" by simp
      with c1 show ?thesis by simp
    next
      case Continue
      with Inr r Cons.prems
      have "run PlanPath A cfg rest ((spin_some ms s1)\<lparr>nl := nl s1 + 1\<rparr>) = Inr (f, s')"
        by simp
      from Cons.IH [OF this] c1 show ?thesis by simp
    qed
  qed
qed

lemma main_init_count: "shutdown_count (main_init A cfg) = 0"
  by (simp add: main_init_def startup_def)

lemma process_new_waypoints_not_pending:
  assumes "process_new_waypoints A s = Inr s'"
  shows "\<not> new_list_pending s'"
  using assms by (cases rule: process_new_waypoints_cases) (simp_all add: new_list_pending_def)

lemma run_Continue_split:
  assumes "run PlanPath A cfg (a @ b) s = Inr (Continue, s')"
  shows "\<exists>s1. run PlanPath A cfg a s = Inr (Continue, s1) \<and> run PlanPath A cfg b s1 = Inr (Continue, s')"
proof (cases "run PlanPath A cfg a s")
  case (Inl e)
  with assms show ?thesis by (simp add: run_append)
next
  case (Inr r)
  obtain f1 s1 where r: "r = (f1, s1)" by (cases r)
  show ?thesis using assms Inr r by (cases f1) (simp_all add: run_append)
qed

lemma run_single_Continue:
  assumes "run PlanPath A cfg [ms] s = Inr (Continue, s')"
  shows "\<exists>s1. loop_body PlanPath A cfg s = Inr (Continue, s1) \<and>
     s' = (spin_some ms s1)\<lparr>nl := nl s1 + 1\<rparr>"
proof (cases "loop_body PlanPath A cfg s")
  case (Inl e)
  with assms show ?thesis by simp
next
  case (Inr r)
  obtain f1 s1 where r: "r = (f1, s1)" by (cases r)
  show ?thesis using assms Inr r by (cases f1) simp_all
qed

lemma body_shutdown_state:
  assumes "head_inv cfg s" and "loop_body PlanPath A cfg s = Inr (f, s')"
    and "state_data s' = shutdown_behavior cfg"
  shows "odom_rcvd s' \<and> shutdown_condition s' \<and> at_last_waypoint s' \<and>
     \<not> new_list_pending s'"
  using assms(2)
proof (cases rule: loop_body_cases)
  case (idle s2)
  from assms(1) have b1: "body_inv cfg (s\<lparr>state_pub := state_pub s @ [state_data s]\<rparr>)"
    by (simp add: head_inv_def body_inv_published)
  then have b2: "body_inv cfg s2" using idle(1) by (rule body_inv_new_waypoints)
  with idle assms(3) have "odom_rcvd s2" by (simp add: body_inv_def)
  with idle assms(3) show ?thesis by simp
next
  case (track s2 ros_path)
  from assms(1) have b1: "body_inv cfg (s\<lparr>state_pub := state_pub s @ [state_data s]\<rparr>)"
    by (simp add: head_inv_def body_inv_published)
  then have b2: "body_inv cfg s2" using track(1) by (rule body_inv_new_waypoints)
  have np: "\<not> new_list_pending s2" using track(1) by (rule process_new_waypoints_not_pending)
  let ?s3 = "s2\<lparr>path_pub := path_pub s2 @ [ros_path],
          waypoint_pub := waypoint_pub s2 @ [current_waypoints s2]\<rparr>"
  from track(5) show ?thesis
  proof (cases rule: check_progression_cases)
    case reached
    from b2 have "0 \<le> current_waypoint s2" by (simp add: body_inv_def)
    with reached(1) have "current_waypoints s2 \<noteq> []" by auto
    with reached np track(2) show ?thesis
      by (simp add: at_last_waypoint_def new_list_pending_def)
  next
    case far
    with assms(3) b2 show ?thesis by (simp add: body_inv_def)
  next
    case advance
    with assms(3) show ?thesis by simp
  next
    case stay
    with assms(3) show ?thesis by simp
  qed
qed

lemma main_init_waypoints:
  "current_waypoints (main_init A cfg) =
     map (pose_of_cast A) (zip (waypoints_x_list cfg) (waypoints_y_list cfg))"
proof -
  let ?xs = "waypoints_x_list cfg" and ?ys = "waypoints_y_list cfg"
  have "map (\<lambda>i. pose_of_cast A (?xs ! i, ?ys ! i)) [0 ..< min (length ?xs) (length ?ys)] =
        map (pose_of_cast A) (zip ?xs ?ys)"
    by (rule nth_equalityI) simp_all
  moreover have "min (length ?xs) (length ?ys) = 0 \<Longrightarrow> zip ?xs ?ys = []"
    by (cases ?xs; cases ?ys) simp_all
  ultimately show ?thesis
    by (auto simp: main_init_def num_waypoints_def startup_def)
qed

lemma startup_idle_run:
  assumes "state_data s = - 1" and "\<not> waypoints_rcvd s"
    and "\<forall>ms \<in> set ticks. \<not> brings_waypoints ms"
  shows "\<exists>s'. run PlanPath A cfg ticks s = Inr (Continue, s') \<and> state_data s' = - 1 \<and>
     \<not> waypoints_rcvd s' \<and> current_waypoints s' = current_waypoints s \<and>
     state_pub s' = state_pub s @ replicate (length ticks) (- 1) \<and>
     path_pub s' = path_pub s"
  using assms
proof (induction ticks arbitrary: s)
  case Nil
  then show ?case by simp
next
  case (Cons ms rest)
  have np: "\<not> new_list_pending s" using Cons.prems(2) by (simp add: new_list_pending_def)
  have body: "loop_body PlanPath A cfg s =
      Inr (Continue, s\<lparr>state_pub := state_pub s @ [state_data s]\<rparr>)"
    using np Cons.prems(1) by (intro loop_body_idle) simp_all
  let ?s1 = "s\<lparr>state_pub := state_pub s @ [state_data s]\<rparr>"
  let ?s2 = "(spin_some ms ?s1)\<lparr>nl := nl ?s1 + 1\<rparr>"
  from Cons.prems(3) have nms: "\<not> brings_waypoints ms"
    and nrest: "\<forall>ms \<in> set rest. \<not> brings_waypoints ms" by simp_all
  from spin_some_no_waypoints [OF nms, of ?s1]
  have k: "current_waypoints ?s2 = current_waypoints s" "\<not> waypoints_rcvd ?s2"
    using Cons.prems(2) by simp_all
  have sd: "state_data ?s2 = - 1" using Cons.prems(1) by simp
  from Cons.IH [OF sd k(2) nrest]
  obtain s' where "run PlanPath A cfg rest ?s2 = Inr (Continue, s')" "state_data s' = - 1"
    "\<not> waypoints_rcvd s'" "current_waypoints s' = current_waypoints ?s2"
    "state_pub s' = state_pub ?s2 @ replicate (length rest) (- 1)"
    "path_pub s' = path_pub ?s2" by blast
  then show ?case using body k Cons.prems(1)
    by (simp add: replicate_append_same)
qed

subsection \<open>The index and the published lists\<close>

lemma check_progression_fields:
  assumes "check_progression A cfg s = Inr (f, s')"
  shows "current_waypoint_pub s' = current_waypoint_pub s @ [current_waypoint s] \<and>
     waypoint_pub s' = waypoint_pub s \<and>
     current_waypoints s' = current_waypoints s \<and>
     waypoints_rcvd s' = waypoints_rcvd s \<and>
     waypoints_change_once s' = waypoints_change_once s \<and>
     current_waypoint s \<le> current_waypoint s' \<and>
     current_waypoint s' \<le> current_waypoint s + 1 \<and>
     (current_waypoint s' = current_waypoint s \<or>
      current_waypoint s' < int (length (current_waypoints s))) \<and>
     (state_data s' = - 1 \<longrightarrow> state_data s = - 1)"
  using assms by (cases rule: check_progression_cases) simp_all

lemma check_progression_ok:
  assumes "0 \<le> current_waypoint s"
    and "current_waypoint s < int (length (current_waypoints s))"
  shows "\<exists>f s'. check_progression A cfg s = Inr (f, s')"
proof (cases "current_waypoint s = int (length (current_waypoints s)) - 1")
  case True
  show ?thesis
  proof (cases "within_goal_dist A cfg s \<or> shutdown_condition s")
    case c: True
    from check_progression_last [OF True c] show ?thesis by blast
  next
    case c: False
    then have "\<not> within_goal_dist A cfg s" "\<not> shutdown_condition s"
      by simp_all
    from check_progression_last_far [OF True this] show ?thesis by blast
  qed
next
  case False
  show ?thesis
  proof (cases "within_goal_dist A cfg s")
    case c: True
    from assms False have "0 \<le> current_waypoint s + 1"
      "current_waypoint s + 1 < int (length (current_waypoints s))" by simp_all
    from check_progression_advance [OF False this c] show ?thesis by blast
  next
    case c: False
    from check_progression_stay [OF False c] show ?thesis by blast
  qed
qed

subsection \<open>Evaluating the examples\<close>

lemma euclidean_distance_less_iff:
  "0 < r \<Longrightarrow>
   euclidean_distance g p < r \<longleftrightarrow> (fst g - fst p)\<^sup>2 + (snd g - snd p)\<^sup>2 < r\<^sup>2"
proof -
  assume r: "0 < r"
  let ?x = "(fst g - fst p)\<^sup>2 + (snd g - snd p)\<^sup>2"
  have "sqrt ?x < r \<longleftrightarrow> sqrt ?x < sqrt (r\<^sup>2)" using r by simp
  also have "\<dots> \<longleftrightarrow> ?x < r\<^sup>2" by (rule real_sqrt_less_iff)
  finally show ?thesis by (simp add: euclidean_distance_def)
qed

lemmas scenario_defs = main_def main_init_def num_waypoints_def startup_def loop_body_def
  process_new_waypoints_def compose_path_def check_progression_def distance_def
  eq_size_minus_1_def lt_size_minus_1_def pose_at_def callback_defs shutdown_behavior_def
  Let_def no_path_def straight_path_def tracking_def new_list_pending_def
  at_last_waypoint_def brings_waypoints_def binary_arith_def to_float_point_def
  pose_of_floats_def pose_of_cast_def append_waypoints.simps node_of_def flow_of_def
  round_to_numeral round_to_neg_numeral round_to_24_16777217 round_to_24_16777216
  round_to_53_below_3 round_to_24_below_3 sqrt_squares


section \<open>The claims on single steps\<close>

text \<open>
  Claim C9, amended. A planner result of at most one point is passed on as it is,
  with no waypoint appended. A result of more than one point is followed by the
  positions of the waypoints after the current index up to the last one, in
  increasing order, each coordinate converted to single precision (lines 183 and
  184); this for a waypoint list that is not empty and an index that is not
  negative. On an empty list the loop of lines 181 to 192 reads \<^verbatim>\<open>poses[1]\<close>.
\<close>

theorem compose_path_appends_remaining:
  "(length path \<le> 1 \<longrightarrow> compose_path A path poses cw = Inr (map (pose_of_floats A) path)) \<and>
   (1 < length path \<and> poses \<noteq> [] \<and> 0 \<le> cw \<longrightarrow>
      compose_path A path poses cw =
        Inr (map (pose_of_floats A) path @
             map (\<lambda>i. pose_of_cast A (poses ! i)) [nat cw + 1 ..< length poses]))"
proof -
  have "map (pose_of_cast A) (drop (nat cw + 1) poses) =
        map (\<lambda>i. pose_of_cast A (poses ! i)) [nat cw + 1 ..< length poses]"
    by (subst drop_as_map_nth) (simp add: o_def)
  then show ?thesis
    using compose_path_short [of path A poses cw] compose_path_long [of path poses cw A]
    by simp
qed

theorem compose_path_appends_remaining_witness:
  "compose_path binary_arith [(3, 3)] [(0, 0), (5, 5), (9, 9)] 0 = Inr [(3, 3)] \<and>
   compose_path binary_arith [] [(0, 0), (5, 5), (9, 9)] 0 = Inr [] \<and>
   compose_path binary_arith [(1, 1), (2, 2)] [(0, 0), (5, 5), (9, 9)] 0 =
     Inr [(1, 1), (2, 2), (5, 5), (9, 9)]"
  using compose_path_appends_remaining
      [where A = binary_arith and path = "[(3, 3)]" and poses = "[(0, 0), (5, 5), (9, 9)]"
         and cw = 0]
    compose_path_appends_remaining
      [where A = binary_arith and path = "[]" and poses = "[(0, 0), (5, 5), (9, 9)]"
         and cw = 0]
    compose_path_appends_remaining
      [where A = binary_arith and path = "[(1, 1), (2, 2)]"
         and poses = "[(0, 0), (5, 5), (9, 9)]" and cw = 0]
  by (simp add: upt_rec binary_arith_def to_float_point_def pose_of_floats_def
      pose_of_cast_def round_to_numeral)

theorem compose_path_exact_positions_counterexample:
  "compose_path binary_arith [(1, 1), (2, 2)] [(0, 0), (5, 16777217)] 0 =
     Inr [(1, 1), (2, 2), (5, 16777216)] \<and>
   compose_path binary_arith [(1, 1), (2, 2)] [] 0 = Inl OutOfRange"
  by (simp add: scenario_defs)

text \<open>
  Claim C7, amended. In a pass that reaches the progression check with an index that
  is not the last one, the distance that decides is the one lines 207 to 209
  compute, with the differences and their squares in single precision. When it is
  below \<open>goal_dist\<close>, the index grows by exactly one and the goal becomes the position
  of the waypoint at the new index, converted to single precision. When it is not,
  and so when it equals \<open>goal_dist\<close>, the index and the goal stay. A pose whose
  Euclidean distance to the goal is below \<open>goal_dist\<close> by less than the rounding does
  not advance the index.
\<close>

theorem advance_by_exactly_one:
  assumes "tracking s"
    and "0 \<le> current_waypoint s"
    and "current_waypoint s < int (length (current_waypoints s)) - 1"
  shows "\<exists>s'. loop_body PlanPath A cfg s = Inr (Continue, s') \<and>
      current_waypoints s' = current_waypoints s \<and>
      (within_goal_dist A cfg s \<longrightarrow>
         current_waypoint s' = current_waypoint s + 1 \<and>
         goal s' = to_float_point A (current_waypoints s ! nat (current_waypoint s + 1))) \<and>
      (\<not> within_goal_dist A cfg s \<longrightarrow>
         current_waypoint s' = current_waypoint s \<and> goal s' = goal s) \<and>
      (distance A (goal s) (odom s) = to_double A (goal_dist cfg) \<and>
       (\<forall>x. \<not> less_d A x x) \<longrightarrow>
         current_waypoint s' = current_waypoint s \<and> goal s' = goal s)"
proof -
  from assms have ne: "current_waypoints s \<noteq> []" by auto
  from loop_body_tracking [OF assms(1) ne assms(2), of A PlanPath cfg]
  obtain ros_path where
    body: "loop_body PlanPath A cfg s =
       check_progression A cfg
         (s\<lparr>state_pub := state_pub s @ [state_data s],
            path_pub := path_pub s @ [ros_path],
            waypoint_pub := waypoint_pub s @ [current_waypoints s]\<rparr>)"
    by blast
  let ?t = "s\<lparr>state_pub := state_pub s @ [state_data s],
            path_pub := path_pub s @ [ros_path],
            waypoint_pub := waypoint_pub s @ [current_waypoints s]\<rparr>"
  show ?thesis
  proof (cases "within_goal_dist A cfg s")
    case True
    have "check_progression A cfg ?t =
      Inr (Continue,
          ?t\<lparr>current_waypoint_pub := current_waypoint_pub ?t @ [current_waypoint ?t],
            dist_to_current_waypoint_pub :=
              dist_to_current_waypoint_pub ?t @ [distance A (goal ?t) (odom ?t)],
            current_waypoint := current_waypoint ?t + 1,
            goal := to_float_point A (current_waypoints ?t ! nat (current_waypoint ?t + 1)),
            state_data := 0,
            state_pub := state_pub ?t @ [0]\<rparr>)"
      using assms True by (intro check_progression_advance) simp_all
    with body True show ?thesis by auto
  next
    case False
    have "check_progression A cfg ?t =
      Inr (Continue,
          ?t\<lparr>current_waypoint_pub := current_waypoint_pub ?t @ [current_waypoint ?t],
            dist_to_current_waypoint_pub :=
              dist_to_current_waypoint_pub ?t @ [distance A (goal ?t) (odom ?t)],
            state_data := 0,
            state_pub := state_pub ?t @ [0]\<rparr>)"
      using assms False by (intro check_progression_stay) simp_all
    with body False show ?thesis by simp
  qed
qed

theorem advance_by_exactly_one_witness:
  "tracking (OdometryCallback (0, 0)
      (main_init binary_arith
         \<lparr>goal_dist = 3, waypoints_x_list = [0, 1, 2], waypoints_y_list = [0, 0, 0],
           shutdown_behavior_param = 1\<rparr>)) \<and>
   (\<exists>s'. loop_body straight_path binary_arith
       \<lparr>goal_dist = 3, waypoints_x_list = [0, 1, 2], waypoints_y_list = [0, 0, 0],
         shutdown_behavior_param = 1\<rparr>
       (OdometryCallback (0, 0)
         (main_init binary_arith
            \<lparr>goal_dist = 3, waypoints_x_list = [0, 1, 2], waypoints_y_list = [0, 0, 0],
              shutdown_behavior_param = 1\<rparr>)) = Inr (Continue, s') \<and>
      current_waypoint s' = 1 \<and> goal s' = (1, 0)) \<and>
   distance binary_arith (0, 0) (3, 0) = 3 \<and>
   (\<exists>s'. loop_body straight_path binary_arith
       \<lparr>goal_dist = 3, waypoints_x_list = [0, 1, 2], waypoints_y_list = [0, 0, 0],
         shutdown_behavior_param = 1\<rparr>
       (OdometryCallback (3, 0)
         (main_init binary_arith
            \<lparr>goal_dist = 3, waypoints_x_list = [0, 1, 2], waypoints_y_list = [0, 0, 0],
              shutdown_behavior_param = 1\<rparr>)) = Inr (Continue, s') \<and>
      current_waypoint s' = 0 \<and> goal s' = (0, 0))"
proof -
  let ?c = "\<lparr>goal_dist = 3, waypoints_x_list = [0, 1, 2], waypoints_y_list = [0, 0, 0],
           shutdown_behavior_param = 1\<rparr> :: (real, real) params"
  let ?s = "OdometryCallback (0, 0) (main_init binary_arith ?c)"
  let ?t = "OdometryCallback (3, 0) (main_init binary_arith ?c)"
  have hs: "tracking ?s" "0 \<le> current_waypoint ?s"
    "current_waypoint ?s < int (length (current_waypoints ?s)) - 1"
    "within_goal_dist binary_arith ?c ?s"
    "current_waypoints ?s ! nat (current_waypoint ?s + 1) = (1, 0)"
    by (simp_all add: scenario_defs)
  have ht: "tracking ?t" "0 \<le> current_waypoint ?t"
    "current_waypoint ?t < int (length (current_waypoints ?t)) - 1"
    "distance binary_arith (goal ?t) (odom ?t) = to_double binary_arith (goal_dist ?c)"
    "\<forall>x. \<not> less_d binary_arith x x" "current_waypoint ?t = 0" "goal ?t = (0, 0)"
    by (simp_all add: scenario_defs)
  have d: "distance binary_arith (0, 0) (3, 0) = 3" by (simp add: scenario_defs)
  from advance_by_exactly_one [OF hs(1,2,3), of straight_path binary_arith ?c] hs(4,5)
  have a: "\<exists>s'. loop_body straight_path binary_arith ?c ?s = Inr (Continue, s') \<and>
      current_waypoint s' = 1 \<and> goal s' = (1, 0)"
    by (auto simp: scenario_defs)
  from advance_by_exactly_one [OF ht(1,2,3), of straight_path binary_arith ?c] ht(4,5,6,7)
  have b: "\<exists>s'. loop_body straight_path binary_arith ?c ?t = Inr (Continue, s') \<and>
      current_waypoint s' = 0 \<and> goal s' = (0, 0)"
    by auto
  from hs(1) a d b show ?thesis by - (intro conjI, assumption+)
qed

theorem advance_by_exactly_one_counterexample:
  "euclidean_distance (0, 0) (3 - 1 / 2 ^ 30, 0) < 3 \<and>
   distance binary_arith (0, 0) (3 - 1 / 2 ^ 30, 0) = 3 \<and>
   map_option goal (node_of (loop_body no_path binary_arith
       \<lparr>goal_dist = 3, waypoints_x_list = [0, 1, 2], waypoints_y_list = [0, 0, 0],
         shutdown_behavior_param = 1\<rparr>
       (OdometryCallback (3 - 1 / 2 ^ 30, 0)
         (main_init binary_arith
            \<lparr>goal_dist = 3, waypoints_x_list = [0, 1, 2], waypoints_y_list = [0, 0, 0],
              shutdown_behavior_param = 1\<rparr>)))) = Some (0, 0) \<and>
   map_option current_waypoint (node_of (loop_body no_path binary_arith
       \<lparr>goal_dist = 3, waypoints_x_list = [0, 1, 2], waypoints_y_list = [0, 0, 0],
         shutdown_behavior_param = 1\<rparr>
       (OdometryCallback (3 - 1 / 2 ^ 30, 0)
         (main_init binary_arith
            \<lparr>goal_dist = 3, waypoints_x_list = [0, 1, 2], waypoints_y_list = [0, 0, 0],
              shutdown_behavior_param = 1\<rparr>)))) = Some 0"
  by (simp add: scenario_defs euclidean_distance_less_iff power2_eq_square)


section \<open>The claims on runs\<close>

text \<open>
  Claim C8, amended. In a pass that reaches the progression check with the index at
  the last waypoint and the distance computed in lines 207 to 209 below \<open>goal_dist\<close>,
  the configured shutdown state is published and the index stays; the state after
  the pass is again at the last waypoint with the computed distance below the
  threshold. Over any further passes in which no new waypoint list arrives the index
  stays where it is, and each pass publishes the shutdown state twice (at the head
  of the loop and in the branch), up to the pass in which the counter reaches 11.
  A pose whose Euclidean distance to the last waypoint is below \<open>goal_dist\<close> by less
  than the rounding signals nothing.
\<close>

theorem goal_reached_at_last_waypoint:
  assumes "tracking s" and "at_last_waypoint s"
    and "within_goal_dist A cfg s"
  shows "(\<exists>f s'. loop_body PlanPath A cfg s = Inr (f, s') \<and>
      state_pub s' = state_pub s @ [state_data s, shutdown_behavior cfg] \<and>
      state_data s' = shutdown_behavior cfg \<and>
      current_waypoint s' = current_waypoint s \<and>
      current_waypoints s' = current_waypoints s \<and>
      tracking s' \<and> at_last_waypoint s' \<and>
      within_goal_dist A cfg s') \<and>
     ((\<forall>ms \<in> set ticks. \<not> brings_waypoints ms) \<and>
      0 \<le> shutdown_count s \<and> shutdown_count s \<le> 10 \<longrightarrow>
      (\<exists>f s'. run PlanPath A cfg ticks s = Inr (f, s') \<and>
         current_waypoint s' = current_waypoint s \<and>
         shutdown_count s' = min (shutdown_count s + int (length ticks)) 11 \<and>
         (ticks \<noteq> [] \<longrightarrow>
            state_pub s' =
              state_pub s @ state_data s #
                replicate (nat (2 * (shutdown_count s' - shutdown_count s) - 1))
                  (shutdown_behavior cfg))))"
proof
  have fs: "final_stretch A cfg s" using assms by (simp add: final_stretch_def)
  from final_body [OF fs, where PlanPath = PlanPath]
  obtain s' where body: "loop_body PlanPath A cfg s =
        Inr (if shutdown_count s + 1 > 10 then Break else Continue, s')"
    and f: "state_pub s' = state_pub s @ [state_data s, shutdown_behavior cfg]"
      "state_data s' = shutdown_behavior cfg"
      "current_waypoint s' = current_waypoint s"
      "current_waypoints s' = current_waypoints s"
      "goal s' = goal s" "odom s' = odom s" "odom_rcvd s'"
      "waypoints_rcvd s' = waypoints_rcvd s"
      "waypoints_change_once s' = waypoints_change_once s"
    by blast
  have "tracking s'" using assms(1) f by (simp add: tracking_def new_list_pending_def)
  moreover have "at_last_waypoint s'" using assms(2) f by (simp add: at_last_waypoint_def)
  moreover have "within_goal_dist A cfg s'" using assms(3) f by simp
  ultimately show "\<exists>f s'. loop_body PlanPath A cfg s = Inr (f, s') \<and>
      state_pub s' = state_pub s @ [state_data s, shutdown_behavior cfg] \<and>
      state_data s' = shutdown_behavior cfg \<and>
      current_waypoint s' = current_waypoint s \<and>
      current_waypoints s' = current_waypoints s \<and>
      tracking s' \<and> at_last_waypoint s' \<and>
      within_goal_dist A cfg s'"
    using body f by blast
next
  have fs: "final_stretch A cfg s" using assms by (simp add: final_stretch_def)
  show "(\<forall>ms \<in> set ticks. \<not> brings_waypoints ms) \<and>
      0 \<le> shutdown_count s \<and> shutdown_count s \<le> 10 \<longrightarrow>
      (\<exists>f s'. run PlanPath A cfg ticks s = Inr (f, s') \<and>
         current_waypoint s' = current_waypoint s \<and>
         shutdown_count s' = min (shutdown_count s + int (length ticks)) 11 \<and>
         (ticks \<noteq> [] \<longrightarrow>
            state_pub s' =
              state_pub s @ state_data s #
                replicate (nat (2 * (shutdown_count s' - shutdown_count s) - 1))
                  (shutdown_behavior cfg)))"
  proof
    assume a: "(\<forall>ms \<in> set ticks. \<not> brings_waypoints ms) \<and>
      0 \<le> shutdown_count s \<and> shutdown_count s \<le> 10"
    then have a1: "\<forall>ms \<in> set ticks. \<not> brings_waypoints ms"
      and a2: "0 \<le> shutdown_count s" and a3: "shutdown_count s \<le> 10" by simp_all
    from final_run [OF fs a1 a2 a3, where PlanPath = PlanPath]
    show "\<exists>f s'. run PlanPath A cfg ticks s = Inr (f, s') \<and>
         current_waypoint s' = current_waypoint s \<and>
         shutdown_count s' = min (shutdown_count s + int (length ticks)) 11 \<and>
         (ticks \<noteq> [] \<longrightarrow>
            state_pub s' =
              state_pub s @ state_data s #
                replicate (nat (2 * (shutdown_count s' - shutdown_count s) - 1))
                  (shutdown_behavior cfg))"
      by blast
  qed
qed

theorem goal_reached_at_last_waypoint_witness:
  "tracking (OdometryCallback (1, 0)
      (main_init binary_arith \<lparr>goal_dist = 3, waypoints_x_list = [0], waypoints_y_list = [0],
                  shutdown_behavior_param = 2\<rparr>)) \<and>
   at_last_waypoint (OdometryCallback (1, 0)
      (main_init binary_arith \<lparr>goal_dist = 3, waypoints_x_list = [0], waypoints_y_list = [0],
                  shutdown_behavior_param = 2\<rparr>)) \<and>
   distance binary_arith (0, 0) (1, 0) = 1 \<and>
   (\<exists>f s'. loop_body no_path binary_arith
        \<lparr>goal_dist = 3, waypoints_x_list = [0], waypoints_y_list = [0],
          shutdown_behavior_param = 2\<rparr>
        (OdometryCallback (1, 0)
          (main_init binary_arith \<lparr>goal_dist = 3, waypoints_x_list = [0], waypoints_y_list = [0],
                      shutdown_behavior_param = 2\<rparr>)) = Inr (f, s') \<and>
      state_pub s' = [0, 0, 2] \<and> current_waypoint s' = 0) \<and>
   (\<exists>f s'. run no_path binary_arith
        \<lparr>goal_dist = 3, waypoints_x_list = [0], waypoints_y_list = [0],
          shutdown_behavior_param = 2\<rparr>
        [[], [OdometryMsg (40, 0)], []]
        (OdometryCallback (1, 0)
          (main_init binary_arith \<lparr>goal_dist = 3, waypoints_x_list = [0], waypoints_y_list = [0],
                      shutdown_behavior_param = 2\<rparr>)) = Inr (f, s') \<and>
      current_waypoint s' = 0 \<and> shutdown_count s' = 3 \<and>
      state_pub s' = [0, 0, 2, 2, 2, 2, 2])"
proof -
  let ?c = "\<lparr>goal_dist = 3, waypoints_x_list = [0], waypoints_y_list = [0],
          shutdown_behavior_param = 2\<rparr> :: (real, real) params"
  let ?s = "OdometryCallback (1, 0) (main_init binary_arith ?c)"
  have h1: "tracking ?s"
    by (simp add: tracking_def new_list_pending_def main_init_def num_waypoints_def
        startup_def callback_defs)
  have h2: "at_last_waypoint ?s"
    by (simp add: at_last_waypoint_def main_init_def num_waypoints_def startup_def callback_defs)
  have h3: "within_goal_dist binary_arith ?c ?s" by (simp add: scenario_defs)
  have d: "distance binary_arith (0, 0) (1, 0) = 1" by (simp add: scenario_defs)
  have sb: "shutdown_behavior ?c = 2" by (simp add: shutdown_behavior_def)
  have init: "state_pub ?s = [0]" "state_data ?s = 0" "current_waypoint ?s = 0"
    "shutdown_count ?s = 0"
    by (simp_all add: main_init_def num_waypoints_def startup_def callback_defs)
  have nw: "\<forall>ms \<in> set [[], [OdometryMsg (40, 0)], []]. \<not> brings_waypoints ms"
    by (simp add: brings_waypoints_def)
  from goal_reached_at_last_waypoint
      [OF h1 h2 h3, where PlanPath = no_path and ticks = "[[], [OdometryMsg (40, 0)], []]"]
    nw init sb
  have "(\<exists>f s'. loop_body no_path binary_arith ?c ?s = Inr (f, s') \<and>
      state_pub s' = [0, 0, 2] \<and> current_waypoint s' = 0) \<and>
   (\<exists>f s'. run no_path binary_arith ?c [[], [OdometryMsg (40, 0)], []] ?s = Inr (f, s') \<and>
      current_waypoint s' = 0 \<and> shutdown_count s' = 3 \<and>
      state_pub s' = [0, 0, 2, 2, 2, 2, 2])"
    by (auto simp: numeral_eq_Suc)
  with h1 h2 d show ?thesis by blast
qed

theorem goal_reached_counterexample:
  "euclidean_distance (0, 0) (3 - 1 / 2 ^ 30, 0) < 3 \<and>
   at_last_waypoint (OdometryCallback (3 - 1 / 2 ^ 30, 0)
      (main_init binary_arith
         \<lparr>goal_dist = 3, waypoints_x_list = [0], waypoints_y_list = [0],
           shutdown_behavior_param = 2\<rparr>)) \<and>
   map_option goal (node_of (loop_body no_path binary_arith
       \<lparr>goal_dist = 3, waypoints_x_list = [0], waypoints_y_list = [0],
         shutdown_behavior_param = 2\<rparr>
       (OdometryCallback (3 - 1 / 2 ^ 30, 0)
         (main_init binary_arith
            \<lparr>goal_dist = 3, waypoints_x_list = [0], waypoints_y_list = [0],
              shutdown_behavior_param = 2\<rparr>)))) = Some (0, 0) \<and>
   map_option state_pub (node_of (loop_body no_path binary_arith
       \<lparr>goal_dist = 3, waypoints_x_list = [0], waypoints_y_list = [0],
         shutdown_behavior_param = 2\<rparr>
       (OdometryCallback (3 - 1 / 2 ^ 30, 0)
         (main_init binary_arith
            \<lparr>goal_dist = 3, waypoints_x_list = [0], waypoints_y_list = [0],
              shutdown_behavior_param = 2\<rparr>)))) = Some [0, 0] \<and>
   map_option shutdown_condition (node_of (loop_body no_path binary_arith
       \<lparr>goal_dist = 3, waypoints_x_list = [0], waypoints_y_list = [0],
         shutdown_behavior_param = 2\<rparr>
       (OdometryCallback (3 - 1 / 2 ^ 30, 0)
         (main_init binary_arith
            \<lparr>goal_dist = 3, waypoints_x_list = [0], waypoints_y_list = [0],
              shutdown_behavior_param = 2\<rparr>)))) = Some False"
  by (simp add: scenario_defs euclidean_distance_less_iff power2_eq_square)

text \<open>
  Claim C10. Whatever the planner, the parameters and the messages, every value
  published on the state topic up to any point of a run of \<open>main\<close> is -1, 0 or the
  shutdown behaviour, which is the parameter when that is 1, 2 or 3 and 1 otherwise;
  so every published value is one of -1, 0, 1, 2, 3.
\<close>

theorem published_state_values:
  assumes "main PlanPath A cfg ticks = Inr (f, s)"
  shows "(\<forall>v \<in> set (state_pub s). v = - 1 \<or> v = 0 \<or> v = shutdown_behavior cfg) \<and>
     shutdown_behavior cfg =
       (if shutdown_behavior_param cfg > 3 \<or> shutdown_behavior_param cfg < 1 then 1
        else shutdown_behavior_param cfg) \<and>
     set (state_pub s) \<subseteq> {- 1, 0, 1, 2, 3}"
proof -
  from assms have "run PlanPath A cfg ticks (main_init A cfg) = Inr (f, s)"
    by (simp add: main_def)
  from run_head_inv [OF head_inv_init this] have "body_inv cfg s" by simp
  then have v: "\<forall>v \<in> set (state_pub s). v = - 1 \<or> v = 0 \<or> v = shutdown_behavior cfg"
    by (simp add: body_inv_def)
  moreover have "shutdown_behavior cfg =
       (if shutdown_behavior_param cfg > 3 \<or> shutdown_behavior_param cfg < 1 then 1
        else shutdown_behavior_param cfg)"
    by (simp add: shutdown_behavior_def Let_def)
  moreover have "set (state_pub s) \<subseteq> {- 1, 0, 1, 2, 3}"
    using v shutdown_behavior_range [of cfg] by auto
  ultimately show ?thesis by blast
qed

theorem published_state_values_witness:
  "\<exists>f s. main no_path binary_arith
       \<lparr>goal_dist = 3, waypoints_x_list = [], waypoints_y_list = [],
         shutdown_behavior_param = 7\<rparr>
       [[NewWaypointsMsg [(0, 0)], OdometryMsg (0, 0)], [], []] = Inr (f, s) \<and>
     state_pub s = [- 1, - 1, 0, 1, 1, 1] \<and>
     (\<forall>v \<in> set (state_pub s). v = - 1 \<or> v = 0 \<or> v = 1) \<and>
     set (state_pub s) \<subseteq> {- 1, 0, 1, 2, 3}"
proof -
  let ?c = "\<lparr>goal_dist = 3, waypoints_x_list = [], waypoints_y_list = [],
         shutdown_behavior_param = 7\<rparr> :: (real, real) params"
  let ?t = "[[NewWaypointsMsg [(0, 0)], OdometryMsg (0, 0)], [], []]"
  have "\<exists>f s. main no_path binary_arith ?c ?t = Inr (f, s) \<and> state_pub s = [- 1, - 1, 0, 1, 1, 1]"
    by (simp add: scenario_defs)
  then obtain f s where r: "main no_path binary_arith ?c ?t = Inr (f, s)"
    and p: "state_pub s = [- 1, - 1, 0, 1, 1, 1]" by blast
  have sb: "shutdown_behavior ?c = 1" by (simp add: shutdown_behavior_def)
  from published_state_values [OF r] sb
  have "(\<forall>v \<in> set (state_pub s). v = - 1 \<or> v = 0 \<or> v = 1) \<and>
     set (state_pub s) \<subseteq> {- 1, 0, 1, 2, 3}" by simp
  with r p show ?thesis by blast
qed

text \<open>
  Claim C3, amended. The loop is left through its \<^verbatim>\<open>break\<close> only in a pass that
  brings \<open>shutdown_count\<close> to 11, so after at least 11 passes of which 11 took the
  branch of lines 220 to 226, and the last value published then is the shutdown
  behaviour. The counter is never set back: the 11 passes need not follow each
  other when a new waypoint list is processed in between. From a state at the head
  of the loop that was never in shutdown, with the index at the last waypoint, the
  distance computed in lines 207 to 209 below \<open>goal_dist\<close> and no new waypoint list
  arriving, the loop goes on through 10 passes and is left in the 11th; every value
  published in these passes after the first is the shutdown behaviour, which is 2
  when configured so. A pose whose Euclidean distance to the last waypoint is below
  \<open>goal_dist\<close> by less than the rounding does not start the count.
\<close>

theorem debounced_shutdown:
  "(main PlanPath A cfg ticks = Inr (Break, s1) \<longrightarrow>
      shutdown_count s1 = 11 \<and> 11 \<le> length ticks \<and>
      state_data s1 = shutdown_behavior cfg \<and>
      last (state_pub s1) = shutdown_behavior cfg) \<and>
   (main PlanPath A cfg pre = Inr (Continue, s) \<and> \<not> shutdown_condition s \<and>
    tracking s \<and> at_last_waypoint s \<and> within_goal_dist A cfg s \<and>
    (\<forall>ms \<in> set rest. \<not> brings_waypoints ms) \<longrightarrow>
      (\<exists>s'. run PlanPath A cfg rest s =
           Inr (if length rest \<le> 10 then Continue else Break, s') \<and>
         shutdown_count s' = min (int (length rest)) 11 \<and>
         (rest \<noteq> [] \<longrightarrow>
            state_data s' = shutdown_behavior cfg \<and>
            state_pub s' =
              state_pub s @ state_data s #
                replicate (nat (2 * shutdown_count s' - 1)) (shutdown_behavior cfg))))"
proof (intro conjI impI)
  assume b: "main PlanPath A cfg ticks = Inr (Break, s1)"
  then have r: "run PlanPath A cfg ticks (main_init A cfg) = Inr (Break, s1)"
    by (simp add: main_def)
  from run_head_inv [OF head_inv_init r]
  show c: "shutdown_count s1 = 11" and "state_data s1 = shutdown_behavior cfg"
    and "last (state_pub s1) = shutdown_behavior cfg" by simp_all
  from run_count [OF r] c show "11 \<le> length ticks"
    by (simp add: main_init_count)
next
  assume a: "main PlanPath A cfg pre = Inr (Continue, s) \<and> \<not> shutdown_condition s \<and>
    tracking s \<and> at_last_waypoint s \<and> within_goal_dist A cfg s \<and>
    (\<forall>ms \<in> set rest. \<not> brings_waypoints ms)"
  then have r: "run PlanPath A cfg pre (main_init A cfg) = Inr (Continue, s)"
    by (simp add: main_def)
  from run_head_inv [OF head_inv_init r] have "head_inv cfg s" by simp
  with a have c0: "shutdown_count s = 0" by (simp add: head_inv_def body_inv_def)
  from a have fs: "final_stretch A cfg s" by (simp add: final_stretch_def)
  from a have nw: "\<forall>ms \<in> set rest. \<not> brings_waypoints ms" by simp
  from final_run [OF fs nw, where PlanPath = PlanPath] c0
  show "\<exists>s'. run PlanPath A cfg rest s =
           Inr (if length rest \<le> 10 then Continue else Break, s') \<and>
         shutdown_count s' = min (int (length rest)) 11 \<and>
         (rest \<noteq> [] \<longrightarrow>
            state_data s' = shutdown_behavior cfg \<and>
            state_pub s' =
              state_pub s @ state_data s #
                replicate (nat (2 * shutdown_count s' - 1)) (shutdown_behavior cfg))"
    by (auto simp: not_le)
qed

theorem debounced_shutdown_witness:
  "\<exists>s. main no_path binary_arith
       \<lparr>goal_dist = 3, waypoints_x_list = [0], waypoints_y_list = [0],
         shutdown_behavior_param = 2\<rparr>
       [[OdometryMsg (1, 0)]] = Inr (Continue, s) \<and>
     \<not> shutdown_condition s \<and> tracking s \<and> at_last_waypoint s \<and>
     within_goal_dist binary_arith
       \<lparr>goal_dist = 3, waypoints_x_list = [0], waypoints_y_list = [0],
         shutdown_behavior_param = 2\<rparr> s \<and>
     (\<exists>s'. run no_path binary_arith
         \<lparr>goal_dist = 3, waypoints_x_list = [0], waypoints_y_list = [0],
           shutdown_behavior_param = 2\<rparr>
         [[], [], [], [], [], [], [], [], [], []] s = Inr (Continue, s') \<and>
        shutdown_count s' = 10) \<and>
     (\<exists>s'. main no_path binary_arith
         \<lparr>goal_dist = 3, waypoints_x_list = [0], waypoints_y_list = [0],
           shutdown_behavior_param = 2\<rparr>
         [[OdometryMsg (1, 0)], [], [], [], [], [], [], [], [], [], [], []] =
           Inr (Break, s') \<and>
        shutdown_count s' = 11 \<and> last (state_pub s') = 2) \<and>
     (\<exists>s'. run no_path binary_arith
         \<lparr>goal_dist = 3, waypoints_x_list = [0], waypoints_y_list = [0],
           shutdown_behavior_param = 2\<rparr>
         [[], [], [], [], [], [], [], [], [], [], []] s = Inr (Break, s') \<and>
        shutdown_count s' = 11 \<and> state_data s' = 2 \<and>
        state_pub s' = state_pub s @ 0 # replicate 21 2)"
proof -
  let ?c = "\<lparr>goal_dist = 3, waypoints_x_list = [0], waypoints_y_list = [0],
         shutdown_behavior_param = 2\<rparr> :: (real, real) params"
  let ?t10 = "[[], [], [], [], [], [], [], [], [], []] :: real msg list list"
  let ?t11 = "[[], [], [], [], [], [], [], [], [], [], []] :: real msg list list"
  let ?all = "[[OdometryMsg (1, 0)], [], [], [], [], [], [], [], [], [], [], []]"
  have "\<exists>s. main no_path binary_arith ?c [[OdometryMsg (1, 0)]] = Inr (Continue, s) \<and>
     \<not> shutdown_condition s \<and> tracking s \<and> at_last_waypoint s \<and>
     within_goal_dist binary_arith ?c s \<and> state_data s = 0"
    by (simp add: scenario_defs)
  then obtain s where r: "main no_path binary_arith ?c [[OdometryMsg (1, 0)]] = Inr (Continue, s)"
    and h: "\<not> shutdown_condition s" "tracking s" "at_last_waypoint s"
      "within_goal_dist binary_arith ?c s" and sd: "state_data s = 0"
    by blast
  have sb: "shutdown_behavior ?c = 2" by (simp add: shutdown_behavior_def)
  have nw10: "\<forall>ms \<in> set ?t10. \<not> brings_waypoints ms" by (simp add: brings_waypoints_def)
  have nw11: "\<forall>ms \<in> set ?t11. \<not> brings_waypoints ms" by (simp add: brings_waypoints_def)
  have brk: "\<exists>s'. main no_path binary_arith ?c ?all = Inr (Break, s')"
    by (simp add: scenario_defs)
  then obtain sb1 where b: "main no_path binary_arith ?c ?all = Inr (Break, sb1)" by blast
  from debounced_shutdown
      [where PlanPath = no_path and A = binary_arith and cfg = ?c and ticks = ?all
         and ?s1.0 = sb1 and pre = "[[OdometryMsg (1, 0)]]" and s = s and rest = ?t10]
    r h nw10 sb
  have p10: "\<exists>s'. run no_path binary_arith ?c ?t10 s = Inr (Continue, s') \<and> shutdown_count s' = 10"
    by auto
  from debounced_shutdown
      [where PlanPath = no_path and A = binary_arith and cfg = ?c and ticks = ?all
         and ?s1.0 = sb1 and pre = "[[OdometryMsg (1, 0)]]" and s = s and rest = ?t11]
    r h nw11 sb sd b
  have p11: "shutdown_count sb1 = 11 \<and> last (state_pub sb1) = 2"
    and q11: "\<exists>s'. run no_path binary_arith ?c ?t11 s = Inr (Break, s') \<and>
        shutdown_count s' = 11 \<and> state_data s' = 2 \<and>
        state_pub s' = state_pub s @ 0 # replicate 21 2"
    by auto
  from r h p10 b p11 q11 show ?thesis by blast
qed

theorem debounced_shutdown_counterexample:
  "flow_of (main no_path binary_arith
     \<lparr>goal_dist = 3, waypoints_x_list = [0], waypoints_y_list = [0],
       shutdown_behavior_param = 2\<rparr>
     [[OdometryMsg (0, 0)], [], [], [], [], [], [], [], [], [],
      [NewWaypointsMsg [(50, 0), (0, 0)]], [OdometryMsg (50, 0)], [], []]) = Some Break \<and>
   map_option state_pub (node_of (main no_path binary_arith
     \<lparr>goal_dist = 3, waypoints_x_list = [0], waypoints_y_list = [0],
       shutdown_behavior_param = 2\<rparr>
     [[OdometryMsg (0, 0)], [], [], [], [], [], [], [], [], [],
      [NewWaypointsMsg [(50, 0), (0, 0)]], [OdometryMsg (50, 0)], [], []])) =
     Some [0, 0, 0, 2, 2, 2, 2, 2, 2, 2, 2, 2, 2, 2, 2, 2, 2, 2, 2, 2, 2, 2,
           2, 0, 0, 0, 0, 0, 2] \<and>
   euclidean_distance (0, 0) (3 - 1 / 2 ^ 30, 0) < 3 \<and>
   flow_of (main no_path binary_arith
     \<lparr>goal_dist = 3, waypoints_x_list = [0], waypoints_y_list = [0],
       shutdown_behavior_param = 2\<rparr>
     [[OdometryMsg (3 - 1 / 2 ^ 30, 0)], [], [], [], [], [], [], [], [], [], [], [], []]) =
     Some Continue \<and>
   map_option state_pub (node_of (main no_path binary_arith
     \<lparr>goal_dist = 3, waypoints_x_list = [0], waypoints_y_list = [0],
       shutdown_behavior_param = 2\<rparr>
     [[OdometryMsg (3 - 1 / 2 ^ 30, 0)], [], [], [], [], [], [], [], [], [], [], [], []])) =
     Some [0, 0, 0, 0, 0, 0, 0, 0, 0, 0, 0, 0, 0, 0]"
  by (simp add: scenario_defs euclidean_distance_less_iff power2_eq_square)

text \<open>
  Claim C6, amended. When a pass of the loop has ended with the shutdown behaviour as
  the state, and no waypoint list is received from the \<^verbatim>\<open>spin_some\<close> of that pass
  on, every value published afterwards is the shutdown behaviour, and 0 is not
  published again. A waypoint list received after a shutdown state was published
  does bring the state back to 0: lines 150 and 234 set it whatever it was.
\<close>

theorem no_return_to_active_without_new_list:
  assumes "main PlanPath A cfg (pre @ [ms]) = Inr (Continue, s1)"
    and "state_data s1 = shutdown_behavior cfg"
    and "\<not> brings_waypoints ms"
    and "\<forall>t \<in> set post. \<not> brings_waypoints t"
  shows "\<exists>f s2 k. main PlanPath A cfg (pre @ ms # post) = Inr (f, s2) \<and>
     state_pub s2 = state_pub s1 @ replicate k (shutdown_behavior cfg) \<and>
     0 \<notin> set (replicate k (shutdown_behavior cfg))"
proof -
  from assms(1) have "run PlanPath A cfg (pre @ [ms]) (main_init A cfg) = Inr (Continue, s1)"
    by (simp add: main_def)
  note r1 = this
  from run_Continue_split [OF r1] obtain s0 where
    r0: "run PlanPath A cfg pre (main_init A cfg) = Inr (Continue, s0)"
    and rl: "run PlanPath A cfg [ms] s0 = Inr (Continue, s1)" by blast
  from run_single_Continue [OF rl] obtain t where
    body: "loop_body PlanPath A cfg s0 = Inr (Continue, t)"
    and s1: "s1 = (spin_some ms t)\<lparr>nl := nl t + 1\<rparr>" by blast
  from run_head_inv [OF head_inv_init r0] have h0: "head_inv cfg s0" by simp
  from head_inv_body [OF h0 body] have ht: "head_inv cfg t" by simp
  from assms(2) s1 have sdt: "state_data t = shutdown_behavior cfg" by simp
  from body_shutdown_state [OF h0 body sdt]
  have od: "odom_rcvd t" and sc: "shutdown_condition t" and al: "at_last_waypoint t"
    and np: "\<not> new_list_pending t" by simp_all
  have tr: "tracking t" using od np sdt by (simp add: tracking_def)
  have fs: "final_stretch A cfg s1"
    unfolding s1
    using final_stretch_spin [OF tr al sc od _ _ _ _ _ assms(3), where A = A and cfg = cfg] sdt by simp
  have h1: "head_inv cfg s1" unfolding s1 using ht by (rule head_inv_spin)
  then have c0: "0 \<le> shutdown_count s1" and c10: "shutdown_count s1 \<le> 10"
    by (simp_all add: head_inv_def body_inv_def)
  from final_run [OF fs assms(4) c0 c10, where PlanPath = PlanPath]
  obtain s2 where
    r2: "run PlanPath A cfg post s1 =
        Inr (if 10 < shutdown_count s1 + int (length post) then Break else Continue, s2)"
    and pubs: "post \<noteq> [] \<longrightarrow>
         state_pub s2 =
           state_pub s1 @ state_data s1 #
             replicate (nat (2 * (shutdown_count s2 - shutdown_count s1) - 1))
               (shutdown_behavior cfg)"
    by blast
  have m: "main PlanPath A cfg (pre @ ms # post) = run PlanPath A cfg post s1"
  proof -
    have "run PlanPath A cfg ((pre @ [ms]) @ post) (main_init A cfg) = run PlanPath A cfg post s1"
      using r1 by (simp only: run_append [where a = "pre @ [ms]"]) simp
    then show ?thesis by (simp add: main_def)
  qed
  have "\<exists>k. state_pub s2 = state_pub s1 @ replicate k (shutdown_behavior cfg)"
  proof (cases "post = []")
    case True
    with r2 have "s2 = s1" by simp
    then have "state_pub s2 = state_pub s1 @ replicate 0 (shutdown_behavior cfg)" by simp
    then show ?thesis by blast
  next
    case False
    with pubs assms(2) have "state_pub s2 = state_pub s1 @
       replicate (Suc (nat (2 * (shutdown_count s2 - shutdown_count s1) - 1)))
         (shutdown_behavior cfg)" by simp
    then show ?thesis by blast
  qed
  then obtain k where "state_pub s2 = state_pub s1 @ replicate k (shutdown_behavior cfg)"
    by blast
  moreover have "0 \<notin> set (replicate k (shutdown_behavior cfg))" by auto
  moreover have "main PlanPath A cfg (pre @ ms # post) =
        Inr (if 10 < shutdown_count s1 + int (length post) then Break else Continue, s2)"
    using m r2 by simp
  ultimately show ?thesis by blast
qed

theorem no_return_to_active_counterexample:
  "map_option state_pub (node_of (main no_path binary_arith
     \<lparr>goal_dist = 3, waypoints_x_list = [0], waypoints_y_list = [0],
       shutdown_behavior_param = 1\<rparr>
     [[OdometryMsg (0, 0)], [NewWaypointsMsg [(50, 0), (60, 0)]], []])) =
     Some [0, 0, 0, 1, 1, 0, 0]"
  by (simp add: scenario_defs)

theorem no_return_to_active_without_new_list_witness:
  "\<exists>s1. main no_path binary_arith
       \<lparr>goal_dist = 3, waypoints_x_list = [0], waypoints_y_list = [0],
         shutdown_behavior_param = 1\<rparr>
       ([[OdometryMsg (0, 0)]] @ [[OdometryMsg (70, 70)]]) = Inr (Continue, s1) \<and>
     state_data s1 = 1 \<and> state_pub s1 = [0, 0, 0, 1] \<and>
     \<not> brings_waypoints [OdometryMsg (70, 70)] \<and>
     (\<exists>f s2 k. main no_path binary_arith
        \<lparr>goal_dist = 3, waypoints_x_list = [0], waypoints_y_list = [0],
          shutdown_behavior_param = 1\<rparr>
        ([[OdometryMsg (0, 0)]] @ [OdometryMsg (70, 70)] # [[], [OdometryMsg (90, 90)]]) =
          Inr (f, s2) \<and>
        state_pub s2 = [0, 0, 0, 1] @ replicate k 1)"
proof -
  let ?c = "\<lparr>goal_dist = 3, waypoints_x_list = [0], waypoints_y_list = [0],
         shutdown_behavior_param = 1\<rparr> :: (real, real) params"
  have "\<exists>s1. main no_path binary_arith ?c ([[OdometryMsg (0, 0)]] @ [[OdometryMsg (70, 70)]]) =
       Inr (Continue, s1) \<and> state_data s1 = 1 \<and> state_pub s1 = [0, 0, 0, 1]"
    by (simp add: scenario_defs)
  then obtain s1 where r: "main no_path binary_arith ?c ([[OdometryMsg (0, 0)]] @ [[OdometryMsg (70, 70)]]) =
       Inr (Continue, s1)" and sd: "state_data s1 = 1" and p: "state_pub s1 = [0, 0, 0, 1]"
    by blast
  have sb: "shutdown_behavior ?c = 1" by (simp add: shutdown_behavior_def)
  have n1: "\<not> brings_waypoints [OdometryMsg (70, 70)]" by (simp add: brings_waypoints_def)
  have n2: "\<forall>t \<in> set [[], [OdometryMsg (90, 90)]]. \<not> brings_waypoints t"
    by (simp add: brings_waypoints_def)
  from sd sb have sd': "state_data s1 = shutdown_behavior ?c" by simp
  from no_return_to_active_without_new_list [OF r sd' n1 n2] sb p
  have "\<exists>f s2 k. main no_path binary_arith ?c
        ([[OdometryMsg (0, 0)]] @ [OdometryMsg (70, 70)] # [[], [OdometryMsg (90, 90)]]) =
          Inr (f, s2) \<and>
        state_pub s2 = [0, 0, 0, 1] @ replicate k 1" by auto
  with r sd p n1 show ?thesis by blast
qed

text \<open>
  Claim C2, amended. The waypoints loaded at the start are the pairs of the two
  coordinate lists up to the shorter of them, each coordinate converted to single
  precision (lines 113 and 114): a mismatch of the lengths cuts the longer list and
  does not empty the waypoint list. The state after the load is -1 exactly when one
  of the coordinate lists is empty, and 0 otherwise. When one of them is empty, the
  node stays in state -1, with an empty waypoint list and without publishing a path,
  through all passes in which no waypoint list is received.
\<close>

theorem mismatched_lists_are_truncated:
  "current_waypoints (main_init A cfg) =
     map (pose_of_cast A) (zip (waypoints_x_list cfg) (waypoints_y_list cfg)) \<and>
   length (current_waypoints (main_init A cfg)) =
     min (length (waypoints_x_list cfg)) (length (waypoints_y_list cfg)) \<and>
   state_data (main_init A cfg) =
     (if waypoints_x_list cfg = [] \<or> waypoints_y_list cfg = [] then - 1 else 0) \<and>
   ((waypoints_x_list cfg = [] \<or> waypoints_y_list cfg = []) \<and>
    (\<forall>ms \<in> set ticks. \<not> brings_waypoints ms) \<longrightarrow>
      (\<exists>s. main PlanPath A cfg ticks = Inr (Continue, s) \<and> state_data s = - 1 \<and>
         current_waypoints s = [] \<and> path_pub s = [] \<and>
         state_pub s = replicate (length ticks) (- 1)))"
proof (intro conjI impI)
  show w: "current_waypoints (main_init A cfg) =
     map (pose_of_cast A) (zip (waypoints_x_list cfg) (waypoints_y_list cfg))"
    by (rule main_init_waypoints)
  then show "length (current_waypoints (main_init A cfg)) =
     min (length (waypoints_x_list cfg)) (length (waypoints_y_list cfg))" by simp
  show "state_data (main_init A cfg) =
     (if waypoints_x_list cfg = [] \<or> waypoints_y_list cfg = [] then - 1 else 0)"
    by (auto simp: main_init_def num_waypoints_def startup_def)
next
  assume a: "(waypoints_x_list cfg = [] \<or> waypoints_y_list cfg = []) \<and>
    (\<forall>ms \<in> set ticks. \<not> brings_waypoints ms)"
  then have i: "main_init A cfg = startup A"
    by (auto simp: main_init_def num_waypoints_def)
  have "state_data (startup A) = - 1" "\<not> waypoints_rcvd (startup A)"
    by (simp_all add: startup_def)
  from startup_idle_run [OF this, where ticks = ticks and PlanPath = PlanPath and cfg = cfg
      and A = A] a i
  show "\<exists>s. main PlanPath A cfg ticks = Inr (Continue, s) \<and> state_data s = - 1 \<and>
         current_waypoints s = [] \<and> path_pub s = [] \<and>
         state_pub s = replicate (length ticks) (- 1)"
    by (auto simp: main_def startup_def)
qed

theorem mismatched_lists_counterexample:
  "length (waypoints_x_list
      \<lparr>goal_dist = 3, waypoints_x_list = [1, 2], waypoints_y_list = [3],
        shutdown_behavior_param = 1\<rparr>) \<noteq>
   length (waypoints_y_list
      \<lparr>goal_dist = 3, waypoints_x_list = [1, 2], waypoints_y_list = [3],
        shutdown_behavior_param = 1\<rparr>) \<and>
   current_waypoints (main_init binary_arith
      \<lparr>goal_dist = 3, waypoints_x_list = [1, 2], waypoints_y_list = [3],
        shutdown_behavior_param = 1\<rparr>) = [(1, 3)] \<and>
   state_data (main_init binary_arith
      \<lparr>goal_dist = 3, waypoints_x_list = [1, 2], waypoints_y_list = [3],
        shutdown_behavior_param = 1\<rparr>) = 0 \<and>
   map_option state_pub (node_of (main straight_path binary_arith
      \<lparr>goal_dist = 3, waypoints_x_list = [1, 2], waypoints_y_list = [3],
        shutdown_behavior_param = 1\<rparr>
      [[OdometryMsg (1, 43)], []])) = Some [0, 0, 0] \<and>
   map_option path_pub (node_of (main straight_path binary_arith
      \<lparr>goal_dist = 3, waypoints_x_list = [1, 2], waypoints_y_list = [3],
        shutdown_behavior_param = 1\<rparr>
      [[OdometryMsg (1, 43)], []])) = Some [[(1, 43), (1, 3)]]"
  by (simp add: scenario_defs)

theorem mismatched_lists_are_truncated_witness:
  "current_waypoints (main_init binary_arith
      \<lparr>goal_dist = 3, waypoints_x_list = [1, 2, 5], waypoints_y_list = [16777217, 4],
        shutdown_behavior_param = 1\<rparr>) = [(1, 16777216), (2, 4)] \<and>
   state_data (main_init binary_arith
      \<lparr>goal_dist = 3, waypoints_x_list = [1, 2, 5], waypoints_y_list = [16777217, 4],
        shutdown_behavior_param = 1\<rparr>) = 0 \<and>
   state_data (main_init binary_arith
      \<lparr>goal_dist = 3, waypoints_x_list = [1, 2, 5], waypoints_y_list = [],
        shutdown_behavior_param = 1\<rparr>) = - 1 \<and>
   (\<exists>s. main straight_path binary_arith
      \<lparr>goal_dist = 3, waypoints_x_list = [1, 2, 5], waypoints_y_list = [],
        shutdown_behavior_param = 1\<rparr>
      [[OdometryMsg (1, 1)], [], []] = Inr (Continue, s) \<and> state_data s = - 1 \<and>
      current_waypoints s = [] \<and> path_pub s = [] \<and> state_pub s = [- 1, - 1, - 1])"
  using mismatched_lists_are_truncated
      [where A = binary_arith
         and cfg = "\<lparr>goal_dist = 3, waypoints_x_list = [1, 2, 5],
            waypoints_y_list = [16777217, 4], shutdown_behavior_param = 1\<rparr>"
         and ticks = "[]" and PlanPath = straight_path]
    mismatched_lists_are_truncated
      [where A = binary_arith
         and cfg = "\<lparr>goal_dist = 3, waypoints_x_list = [1, 2, 5],
            waypoints_y_list = [], shutdown_behavior_param = 1\<rparr>"
         and ticks = "[[OdometryMsg (1, 1)], [], []]" and PlanPath = straight_path]
  by (simp add: brings_waypoints_def binary_arith_def pose_of_cast_def
      pose_of_floats_def to_float_point_def round_to_numeral round_to_24_16777217)

text \<open>
  Claim C1, amended. For the first waypoint list received (\<open>waypoints_change_once\<close>
  still set), whatever the old list and the old index: lines 141 to 152 set the
  index to 0, the goal to the first position of the new list converted to single
  precision, and the state to 0; when a pose has been received the same pass
  publishes index 0 together with the new list and ends with index 0 or 1 in it.
  The received list is not empty.
\<close>

theorem first_received_list_resets_index:
  "waypoints_change_once s \<and> w \<noteq> [] \<longrightarrow>
      (\<exists>s'. process_new_waypoints A (WaypointCallback w s) = Inr s' \<and>
         current_waypoint s' = 0 \<and> goal s' = to_float_point A (w ! 0) \<and>
         current_waypoints s' = w \<and>
         state_data s' = 0 \<and> \<not> waypoints_change_once s') \<and>
      (odom_rcvd s \<longrightarrow>
         (\<exists>f s''. loop_body PlanPath A cfg (WaypointCallback w s) = Inr (f, s'') \<and>
            current_waypoint_pub s'' = current_waypoint_pub s @ [0] \<and>
            waypoint_pub s'' = waypoint_pub s @ [w] \<and>
            current_waypoints s'' = w \<and>
            0 \<le> current_waypoint s'' \<and> current_waypoint s'' \<le> 1))"
proof (intro conjI impI)
  assume a: "waypoints_change_once s \<and> w \<noteq> []"
  let ?s2 = "\<lambda>t. t\<lparr>current_waypoint := 0,
               goal := to_float_point A (current_waypoints t ! 0),
               waypoints_change_once := False, state_data := 0,
               state_pub := state_pub t @ [0]\<rparr>"
  have p: "\<And>t. waypoints_rcvd t \<Longrightarrow> waypoints_change_once t \<Longrightarrow> current_waypoints t \<noteq> [] \<Longrightarrow>
     process_new_waypoints A t = Inr (?s2 t)"
    by (simp add: process_new_waypoints_def pose_at_def)
  from a p [of "WaypointCallback w s"]
  show "\<exists>s'. process_new_waypoints A (WaypointCallback w s) = Inr s' \<and>
         current_waypoint s' = 0 \<and> goal s' = to_float_point A (w ! 0) \<and>
         current_waypoints s' = w \<and>
         state_data s' = 0 \<and> \<not> waypoints_change_once s'"
    by (simp add: WaypointCallback_def)
  assume o: "odom_rcvd s"
  let ?t = "(WaypointCallback w s)\<lparr>state_pub := state_pub (WaypointCallback w s) @
      [state_data (WaypointCallback w s)]\<rparr>"
  have pt: "process_new_waypoints A ?t = Inr (?s2 ?t)"
    using a by (intro p) (simp_all add: WaypointCallback_def)
  obtain r where r: "compose_path A
       (PlanPath (current_grid (?s2 ?t)) (segmentation_grid (?s2 ?t)) (goal (?s2 ?t))
          (to_float_point A (odom (?s2 ?t))))
       (current_waypoints (?s2 ?t)) (current_waypoint (?s2 ?t)) = Inr r"
    using compose_path_ok [where poses = "current_waypoints (?s2 ?t)"
        and cw = "current_waypoint (?s2 ?t)" and A = A] a
    by (auto simp: WaypointCallback_def)
  let ?s3 = "(?s2 ?t)\<lparr>path_pub := path_pub (?s2 ?t) @ [r],
      waypoint_pub := waypoint_pub (?s2 ?t) @ [current_waypoints (?s2 ?t)]\<rparr>"
  have body: "loop_body PlanPath A cfg (WaypointCallback w s) = check_progression A cfg ?s3"
    using pt r o by (simp add: loop_body_def Let_def WaypointCallback_def)
  have "0 \<le> current_waypoint ?s3" "current_waypoint ?s3 < int (length (current_waypoints ?s3))"
    using a by (simp_all add: WaypointCallback_def)
  from check_progression_ok [OF this, where cfg = cfg and A = A]
  obtain f s'' where c: "check_progression A cfg ?s3 = Inr (f, s'')" by blast
  from check_progression_fields [OF c]
  have "current_waypoint_pub s'' = current_waypoint_pub s @ [0]"
    "waypoint_pub s'' = waypoint_pub s @ [w]" "current_waypoints s'' = w"
    "0 \<le> current_waypoint s''" "current_waypoint s'' \<le> 1"
    by (simp_all add: WaypointCallback_def)
  with body c show "\<exists>f s''. loop_body PlanPath A cfg (WaypointCallback w s) = Inr (f, s'') \<and>
            current_waypoint_pub s'' = current_waypoint_pub s @ [0] \<and>
            waypoint_pub s'' = waypoint_pub s @ [w] \<and>
            current_waypoints s'' = w \<and>
            0 \<le> current_waypoint s'' \<and> current_waypoint s'' \<le> 1"
    by simp
qed

theorem first_received_list_resets_index_witness:
  "waypoints_change_once
     ((OdometryCallback (30, 0)
        (main_init binary_arith
           \<lparr>goal_dist = 3, waypoints_x_list = [0, 10, 20, 30, 40],
             waypoints_y_list = [0, 0, 0, 0, 0], shutdown_behavior_param = 1\<rparr>))
        \<lparr>current_waypoint := 3, goal := (30, 0)\<rparr>) \<and>
   (\<exists>s'. process_new_waypoints binary_arith (WaypointCallback [(16777217, 7), (8, 8)]
       ((OdometryCallback (30, 0)
        (main_init binary_arith
           \<lparr>goal_dist = 3, waypoints_x_list = [0, 10, 20, 30, 40],
             waypoints_y_list = [0, 0, 0, 0, 0], shutdown_behavior_param = 1\<rparr>))
        \<lparr>current_waypoint := 3, goal := (30, 0)\<rparr>)) = Inr s' \<and>
      current_waypoint s' = 0 \<and> goal s' = (16777216, 7) \<and>
      current_waypoints s' = [(16777217, 7), (8, 8)]) \<and>
   (\<exists>f s''. loop_body no_path binary_arith
       \<lparr>goal_dist = 3, waypoints_x_list = [0, 10, 20, 30, 40],
         waypoints_y_list = [0, 0, 0, 0, 0], shutdown_behavior_param = 1\<rparr>
       (WaypointCallback [(16777217, 7), (8, 8)]
         ((OdometryCallback (30, 0)
          (main_init binary_arith
             \<lparr>goal_dist = 3, waypoints_x_list = [0, 10, 20, 30, 40],
               waypoints_y_list = [0, 0, 0, 0, 0], shutdown_behavior_param = 1\<rparr>))
          \<lparr>current_waypoint := 3, goal := (30, 0)\<rparr>)) = Inr (f, s'') \<and>
      current_waypoint_pub s'' = [0] \<and>
      waypoint_pub s'' = [[(16777217, 7), (8, 8)]])"
proof -
  let ?c = "\<lparr>goal_dist = 3, waypoints_x_list = [0, 10, 20, 30, 40],
           waypoints_y_list = [0, 0, 0, 0, 0], shutdown_behavior_param = 1\<rparr>
           :: (real, real) params"
  let ?s = "(OdometryCallback (30, 0) (main_init binary_arith ?c))
      \<lparr>current_waypoint := 3, goal := (30, 0)\<rparr>"
  let ?w = "[(16777217, 7), (8, 8)] :: real Path"
  have h: "waypoints_change_once ?s" "odom_rcvd ?s" "current_waypoint_pub ?s = []"
    "waypoint_pub ?s = []"
    by (simp_all add: main_init_def startup_def callback_defs)
  have g: "to_float_point binary_arith (?w ! 0) = (16777216, 7)"
    by (simp add: to_float_point_def binary_arith_def round_to_numeral round_to_24_16777217)
  from first_received_list_resets_index
      [where s = ?s and w = ?w and PlanPath = no_path and cfg = ?c and A = binary_arith] h g
  have a: "\<exists>s'. process_new_waypoints binary_arith (WaypointCallback ?w ?s) = Inr s' \<and>
      current_waypoint s' = 0 \<and> goal s' = (16777216, 7) \<and> current_waypoints s' = ?w"
    and b: "\<exists>f s''. loop_body no_path binary_arith ?c (WaypointCallback ?w ?s) = Inr (f, s'') \<and>
      current_waypoint_pub s'' = [0] \<and> waypoint_pub s'' = [?w]"
    by auto
  from h(1) a b show ?thesis by - (intro conjI, assumption+)
qed

theorem every_new_list_resets_counterexample:
  "map_option current_waypoint (node_of (main no_path binary_arith
     \<lparr>goal_dist = 3, waypoints_x_list = [], waypoints_y_list = [],
       shutdown_behavior_param = 1\<rparr>
     [[NewWaypointsMsg [(0, 0), (10, 0)], OdometryMsg (0, 0)],
      [NewWaypointsMsg [(7, 7), (8, 8), (9, 9)]], []])) = Some 1 \<and>
   map_option goal (node_of (main no_path binary_arith
     \<lparr>goal_dist = 3, waypoints_x_list = [], waypoints_y_list = [],
       shutdown_behavior_param = 1\<rparr>
     [[NewWaypointsMsg [(0, 0), (10, 0)], OdometryMsg (0, 0)],
      [NewWaypointsMsg [(7, 7), (8, 8), (9, 9)]], []])) = Some (10, 0) \<and>
   map_option current_waypoints (node_of (main no_path binary_arith
     \<lparr>goal_dist = 3, waypoints_x_list = [], waypoints_y_list = [],
       shutdown_behavior_param = 1\<rparr>
     [[NewWaypointsMsg [(0, 0), (10, 0)], OdometryMsg (0, 0)],
      [NewWaypointsMsg [(7, 7), (8, 8), (9, 9)]], []])) = Some [(7, 7), (8, 8), (9, 9)] \<and>
   map_option current_waypoint_pub (node_of (main no_path binary_arith
     \<lparr>goal_dist = 3, waypoints_x_list = [], waypoints_y_list = [],
       shutdown_behavior_param = 1\<rparr>
     [[NewWaypointsMsg [(0, 0), (10, 0)], OdometryMsg (0, 0)],
      [NewWaypointsMsg [(7, 7), (8, 8), (9, 9)]], []])) = Some [0, 1]"
  by (simp add: scenario_defs)

text \<open>
  Claim C5. A run in which the index leaves the range of the list in effect: a list
  of three waypoints is received and the index goes to 2; then a list of one waypoint
  is received. \<^verbatim>\<open>WaypointCallback\<close> overwrites the list, and the branch of lines 141
  to 152 is not taken again, so the next pass publishes index 2 together with the
  list of length 1. One pass later, with the pose at the old goal, line 230 makes the
  index 3 and line 231 reads \<^verbatim>\<open>poses[3]\<close> of the one-element list.
\<close>

theorem stale_index_after_second_list:
  "map_option current_waypoint_pub (node_of (main no_path binary_arith
     \<lparr>goal_dist = 3, waypoints_x_list = [], waypoints_y_list = [],
       shutdown_behavior_param = 1\<rparr>
     [[NewWaypointsMsg [(0, 0), (10, 0), (20, 0)], OdometryMsg (0, 0)],
      [OdometryMsg (10, 0)], [NewWaypointsMsg [(5, 5)]], []])) = Some [0, 1, 2] \<and>
   map_option waypoint_pub (node_of (main no_path binary_arith
     \<lparr>goal_dist = 3, waypoints_x_list = [], waypoints_y_list = [],
       shutdown_behavior_param = 1\<rparr>
     [[NewWaypointsMsg [(0, 0), (10, 0), (20, 0)], OdometryMsg (0, 0)],
      [OdometryMsg (10, 0)], [NewWaypointsMsg [(5, 5)]], []])) =
     Some [[(0, 0), (10, 0), (20, 0)], [(0, 0), (10, 0), (20, 0)], [(5, 5)]] \<and>
   map_option current_waypoint (node_of (main no_path binary_arith
     \<lparr>goal_dist = 3, waypoints_x_list = [], waypoints_y_list = [],
       shutdown_behavior_param = 1\<rparr>
     [[NewWaypointsMsg [(0, 0), (10, 0), (20, 0)], OdometryMsg (0, 0)],
      [OdometryMsg (10, 0)], [NewWaypointsMsg [(5, 5)]], []])) = Some 2 \<and>
   map_option current_waypoints (node_of (main no_path binary_arith
     \<lparr>goal_dist = 3, waypoints_x_list = [], waypoints_y_list = [],
       shutdown_behavior_param = 1\<rparr>
     [[NewWaypointsMsg [(0, 0), (10, 0), (20, 0)], OdometryMsg (0, 0)],
      [OdometryMsg (10, 0)], [NewWaypointsMsg [(5, 5)]], []])) = Some [(5, 5)] \<and>
   main no_path binary_arith
     \<lparr>goal_dist = 3, waypoints_x_list = [], waypoints_y_list = [],
       shutdown_behavior_param = 1\<rparr>
     [[NewWaypointsMsg [(0, 0), (10, 0), (20, 0)], OdometryMsg (0, 0)],
      [OdometryMsg (10, 0)], [NewWaypointsMsg [(5, 5)]], [OdometryMsg (20, 0)], []] =
     Inl OutOfRange"
  by (simp add: scenario_defs)

text \<open>
  Claim C4. With no configured waypoints, an empty waypoint list received in state -1
  leaves the state at -1 until the next pass; that pass takes the branch of lines
  141 to 152, whose first read is \<^verbatim>\<open>poses[0]\<close> of the empty list, before the lines
  that set the state to 0: nothing there asks whether the list has an element, as
  line 105 does for the configured waypoints.
\<close>

theorem empty_new_list_read_out_of_range:
  "map_option state_data (node_of (main no_path binary_arith
     \<lparr>goal_dist = 3, waypoints_x_list = [], waypoints_y_list = [],
       shutdown_behavior_param = 1\<rparr>
     [[NewWaypointsMsg []]])) = Some (- 1) \<and>
   map_option current_waypoints (node_of (main no_path binary_arith
     \<lparr>goal_dist = 3, waypoints_x_list = [], waypoints_y_list = [],
       shutdown_behavior_param = 1\<rparr>
     [[NewWaypointsMsg []]])) = Some [] \<and>
   map_option new_list_pending (node_of (main no_path binary_arith
     \<lparr>goal_dist = 3, waypoints_x_list = [], waypoints_y_list = [],
       shutdown_behavior_param = 1\<rparr>
     [[NewWaypointsMsg []]])) = Some True \<and>
   main no_path binary_arith
     \<lparr>goal_dist = 3, waypoints_x_list = [], waypoints_y_list = [],
       shutdown_behavior_param = 1\<rparr>
     [[NewWaypointsMsg []], []] = Inl OutOfRange"
  by (simp add: scenario_defs)

end
